theory Spec2Isabelle
  imports Main "HOL-Library.Sublist"
begin

section \<open>The launch configuration resolver of distar/bin/play.py\<close>

text \<open>
  The program is one function, \<open>main\<close>, that reads the command line, the process
  environment, the file system and two accelerator probes, rewrites the configuration
  that \<open>read_config\<close> loaded, and hands it to \<open>Actor\<close>. The embedding follows the
  function from top to bottom. Every \<open>raise\<close>, and every subscript of a dictionary or a
  list that can fail, is a branch that returns an \<open>error\<close>.
\<close>

subsection \<open>Strings and paths\<close>

text \<open>
  Python strings are lists of characters. The functions of \<open>os.path\<close> are those of
  \<open>posixpath\<close>: the program targets macOS (its only default installation path is
  \<open>/Applications/StarCraft II\<close>), where the separator is the slash.
\<close>

definition sep :: char where
  "sep = CHR ''/''"

text \<open>\<open>p.rfind(sep) + 1\<close>: the index just after the last separator, 0 when there is none.\<close>

definition rfind_sep_plus1 :: "string \<Rightarrow> nat" where
  "rfind_sep_plus1 p = length p - length (takeWhile (\<lambda>c. c \<noteq> sep) (rev p))"

text \<open>\<open>s.rstrip(sep)\<close>\<close>

definition rstrip_sep :: "string \<Rightarrow> string" where
  "rstrip_sep s = rev (dropWhile (\<lambda>c. c = sep) (rev s))"

text \<open>
  \<open>posixpath.dirname\<close>: the head up to and including the last separator, with its
  trailing separators removed unless it consists of separators only.
\<close>

definition dirname :: "string \<Rightarrow> string" where
  "dirname p =
     (let i = rfind_sep_plus1 p;
          head = take i p
      in if head \<noteq> [] \<and> head \<noteq> replicate (length head) sep then rstrip_sep head
         else head)"

text \<open>\<open>posixpath.basename\<close>: what follows the last separator.\<close>

definition basename :: "string \<Rightarrow> string" where
  "basename p = drop (rfind_sep_plus1 p) p"

text \<open>
  \<open>posixpath.join(a, b)\<close> with two arguments: an absolute \<open>b\<close> replaces \<open>a\<close>; an empty
  \<open>a\<close>, or one that ends with the separator, is prefixed as it is; otherwise the
  separator is put in between.
\<close>

definition path_join :: "string \<Rightarrow> string \<Rightarrow> string" where
  "path_join a b =
     (if b \<noteq> [] \<and> hd b = sep then b
      else if a = [] \<or> last a = sep then a @ b
      else a @ sep # b)"

text \<open>\<open>s.split(".")[0]\<close>: the part of \<open>s\<close> before its first dot, all of \<open>s\<close> when it has none.\<close>

definition split_dot_0 :: "string \<Rightarrow> string" where
  "split_dot_0 s = takeWhile (\<lambda>c. c \<noteq> CHR ''.'') s"

text \<open>\<open>os.path.basename(model).split(".")[0]\<close>, the identity of an agent's side.\<close>

definition player_id :: "string \<Rightarrow> string" where
  "player_id model = split_dot_0 (basename model)"

subsection \<open>Command line, environment and configuration\<close>

text \<open>
  \<open>argparse\<close> admits only the listed choices for \<open>--game_type\<close> and \<open>--race\<close>, so both
  are enumerations; \<open>race_str\<close> gives the string that \<open>args.race\<close> holds.
\<close>

datatype game_type = agent_vs_agent | agent_vs_bot | human_vs_agent

datatype race = zerg | protoss | terran

fun race_str :: "race \<Rightarrow> string" where
  "race_str zerg = ''zerg''"
| "race_str protoss = ''protoss''"
| "race_str terran = ''terran''"

record args =
  model1 :: "string option"
  model2 :: "string option"
  cpu :: bool
  game_type :: game_type
  race :: race

text \<open>
  What \<open>main\<close> reads and never writes: \<open>sys.platform\<close>, \<open>os.path.isdir\<close>,
  \<open>os.path.exists\<close>, \<open>torch.backends.mps.is_available()\<close>, \<open>torch.cuda.is_available()\<close>
  and \<open>__file__\<close>.
\<close>

record world =
  platform :: string
  isdir :: "string \<Rightarrow> bool"
  path_exists :: "string \<Rightarrow> bool"
  mps_is_available :: bool
  cuda_is_available :: bool
  script_file :: string

text \<open>
  What \<open>main\<close> writes outside the configuration: \<open>os.environ\<close>, the lines printed, and
  the accelerator probes it has called (in call order).
\<close>

record proc =
  environ :: "string \<rightharpoonup> string"
  stdout :: "string list"
  probed :: "string list"

text \<open>
  The configuration is a nested dictionary with the sections \<open>actor\<close>, \<open>env\<close> and
  \<open>common\<close>. A key of a section is absent (\<open>None\<close>) or holds a value; the keys that
  \<open>main\<close> never names are the \<open>more\<close> part of each record.
\<close>

record actor_config =
  job_type :: "string option"
  episode_num :: "int option"
  use_cuda :: "bool option"
  use_mps :: "bool option"
  device :: "string option"
  model_paths :: "(string \<rightharpoonup> string) option"
  actor_player_ids :: "string list option"

record env_config =
  realtime :: "bool option"
  races :: "string list option"
  env_player_ids :: "string list option"

record common_config =
  common_type :: "string option"

record ('a, 'e, 'c) user_config =
  actor :: "'a actor_config_scheme"
  env :: "'e env_config_scheme"
  common :: "'c common_config_scheme"

datatype error =
    EnvironmentError string
  | NotADirectoryError string
  | FileNotFoundError string
  | KeyError string
  | IndexError string

text \<open>\<open>load_default_config()\<close>, the baseline dictionary of the source (lines 20-41).\<close>

definition load_default_config :: "(unit, unit, unit) user_config" where
  "load_default_config =
     \<lparr> actor = \<lparr> job_type = None, episode_num = None, use_cuda = None,
                 use_mps = Some True, device = Some ''mps'',
                 model_paths = Some [''model1'' \<mapsto> ''default'', ''model2'' \<mapsto> ''default''],
                 actor_player_ids = Some [] \<rparr>,
       env = \<lparr> realtime = None, races = None, env_player_ids = Some [] \<rparr>,
       common = \<lparr> common_type = Some ''play'' \<rparr> \<rparr>"

subsection \<open>Locating the game installation (lines 85-106)\<close>

definition mac_default_sc2 :: string where
  "mac_default_sc2 = ''/Applications/StarCraft II''"

text \<open>\<open>os.environ.get(key, default)\<close>\<close>

definition environ_get :: "proc \<Rightarrow> string \<Rightarrow> string \<Rightarrow> string" where
  "environ_get p key dflt = (case environ p key of None \<Rightarrow> dflt | Some v \<Rightarrow> v)"

definition ensure_sc2path :: "string \<Rightarrow> (string \<Rightarrow> bool) \<Rightarrow> proc \<Rightarrow> error + proc" where
  "ensure_sc2path plat is_dir p =
     (let sc2path = environ_get p ''SC2PATH'' []
      in if sc2path = [] then
           if plat = ''darwin'' then
             if is_dir mac_default_sc2 then
               Inr (p\<lparr> environ := (environ p)(''SC2PATH'' \<mapsto> mac_default_sc2),
                       stdout := stdout p @
                         [''[INFO] SC2PATH wasn't set, so I'm using '' @ mac_default_sc2 @
                          '' by default.''] \<rparr>)
             else
               Inl (EnvironmentError
                 (''SC2PATH is not set and StarCraft II wasn't found in /Applications/StarCraft II. '' @
                  ''You'll need to install SC2 or manually specify SC2PATH.''))
           else
             Inl (EnvironmentError
               ''SC2PATH isn't set at all. You really need to point this to your StarCraft II installation.'')
         else if \<not> is_dir sc2path then
           Inl (NotADirectoryError
             (''SC2PATH is currently '' @ [CHR 0x27] @ sc2path @ [CHR 0x27] @
              '', but there's no directory there. Check your install.''))
         else Inr p)"

subsection \<open>Fixed overrides and accelerator selection (lines 112-142)\<close>

definition base_overrides :: "('a, 'e, 'c) user_config \<Rightarrow> ('a, 'e, 'c) user_config" where
  "base_overrides c =
     c\<lparr> actor := (actor c)\<lparr> job_type := Some ''eval_test'', episode_num := Some 1,
                              use_cuda := Some False \<rparr>,
        common := (common c)\<lparr> common_type := Some ''play'' \<rparr>,
        env := (env c)\<lparr> realtime := Some True \<rparr> \<rparr>"

text \<open>
  The probes are called only on the branch that needs them: none with \<open>--cpu\<close>, the
  CUDA probe only after the Metal probe has answered no.
\<close>

definition decide_device ::
  "bool \<Rightarrow> bool \<Rightarrow> bool \<Rightarrow> proc \<Rightarrow> 'a actor_config_scheme \<Rightarrow> proc \<times> 'a actor_config_scheme" where
  "decide_device cpu_flag mps cuda p a =
     (if cpu_flag then
        (p\<lparr> stdout := stdout p @ [''[INFO] CPU mode only. MPS is sidelined.''] \<rparr>,
         a\<lparr> device := Some ''cpu'', use_mps := Some False, use_cuda := Some False \<rparr>)
      else if mps then
        (p\<lparr> probed := probed p @ [''mps''],
            stdout := stdout p @ [''[INFO] MPS is alive and well, using Metal for acceleration!''] \<rparr>,
         a\<lparr> device := Some ''mps'', use_mps := Some True, use_cuda := Some False \<rparr>)
      else if cuda then
        (p\<lparr> probed := probed p @ [''mps'', ''cuda''],
            stdout := stdout p @
              [''[WARNING] No MPS support found. Trying CUDA next. Check your Applestar version if CUDA is supported.''] \<rparr>,
         a\<lparr> device := Some ''cuda'', use_mps := Some False, use_cuda := Some True \<rparr>)
      else
        (p\<lparr> probed := probed p @ [''mps'', ''cuda''],
            stdout := stdout p @ [''[WARNING] No MPS support found. Falling back to CPU.''] \<rparr>,
         a\<lparr> device := Some ''cpu'', use_mps := Some False, use_cuda := Some False \<rparr>))"

subsection \<open>Model paths and their checks (lines 144-168)\<close>

definition default_model_path :: "string \<Rightarrow> string" where
  "default_model_path dir = path_join dir ''rl_model.pth''"

text \<open>
  One slot (lines 147-154 for \<open>model1\<close>, 156-163 for \<open>model2\<close>): the command-line name is
  written into the dictionary first, then the slot is read back (a \<open>KeyError\<close> when it
  is absent) and the sentinel \<open>default\<close> is replaced. The result is the dictionary and
  the local variable \<open>model1\<close> or \<open>model2\<close>.
\<close>

definition resolve_slot ::
  "string \<Rightarrow> string option \<Rightarrow> string \<Rightarrow> (string \<rightharpoonup> string) \<Rightarrow> error + (string \<rightharpoonup> string) \<times> string" where
  "resolve_slot slot arg dir mp =
     (let mp1 = (case arg of None \<Rightarrow> mp | Some n \<Rightarrow> mp(slot \<mapsto> path_join dir (n @ ''.pth'')))
      in case mp1 slot of
           None \<Rightarrow> Inl (KeyError slot)
         | Some m \<Rightarrow>
             if m = ''default'' then Inr (mp1(slot \<mapsto> default_model_path dir), default_model_path dir)
             else Inr (mp1, m))"

definition resolve_models ::
  "string option \<Rightarrow> string option \<Rightarrow> string \<Rightarrow> (string \<Rightarrow> bool) \<Rightarrow> 'a actor_config_scheme
     \<Rightarrow> error + 'a actor_config_scheme \<times> string \<times> string" where
  "resolve_models arg1 arg2 dir ex a =
     (case model_paths a of
        None \<Rightarrow> Inl (KeyError ''model_paths'')
      | Some mp \<Rightarrow>
          (case resolve_slot ''model1'' arg1 dir mp of
             Inl e \<Rightarrow> Inl e
           | Inr (mp1, m1) \<Rightarrow>
               (case resolve_slot ''model2'' arg2 dir mp1 of
                  Inl e \<Rightarrow> Inl e
                | Inr (mp2, m2) \<Rightarrow>
                    if \<not> ex m1 then
                      Inl (FileNotFoundError (''[ERROR] Model1 is nowhere to be found at '' @ m1))
                    else if \<not> ex m2 then
                      Inl (FileNotFoundError (''[ERROR] Model2 is nowhere to be found at '' @ m2))
                    else Inr (a\<lparr> model_paths := Some mp2 \<rparr>, m1, m2))))"

subsection \<open>Race override and game type (lines 170-195)\<close>

text \<open>
  \<open>user_config["env"]["races"][1] = args.race\<close>: a \<open>KeyError\<close> without the key, an
  \<open>IndexError\<close> on a list of fewer than two entries.
\<close>

definition override_race ::
  "string \<Rightarrow> ('a, 'e, 'c) user_config \<Rightarrow> error + ('a, 'e, 'c) user_config" where
  "override_race r c =
     (case races (env c) of
        None \<Rightarrow> Inl (KeyError ''races'')
      | Some rs \<Rightarrow>
          if length rs < 2 then Inl (IndexError ''list assignment index out of range'')
          else Inr (c\<lparr> env := (env c)\<lparr> races := Some (rs[1 := r]) \<rparr> \<rparr>))"

text \<open>\<open>args.model2 and "bot" in args.model2\<close> chooses the bot level.\<close>

definition bot_level :: "string option \<Rightarrow> string" where
  "bot_level arg2 =
     (case arg2 of
        None \<Rightarrow> ''bot10''
      | Some m \<Rightarrow> if m \<noteq> [] \<and> sublist ''bot'' m then m else ''bot10'')"

definition game_type_logic ::
  "game_type \<Rightarrow> string option \<Rightarrow> string \<Rightarrow> string \<Rightarrow> ('a, 'e, 'c) user_config
     \<Rightarrow> ('a, 'e, 'c) user_config" where
  "game_type_logic gt arg2 m1 m2 c =
     (case gt of
        agent_vs_agent \<Rightarrow>
          c\<lparr> env := (env c)\<lparr> env_player_ids := Some [player_id m1, player_id m2] \<rparr> \<rparr>
      | agent_vs_bot \<Rightarrow>
          c\<lparr> actor := (actor c)\<lparr> actor_player_ids := Some [''model1''] \<rparr>,
             env := (env c)\<lparr> env_player_ids := Some [player_id m1, bot_level arg2] \<rparr> \<rparr>
      | human_vs_agent \<Rightarrow>
          c\<lparr> actor := (actor c)\<lparr> actor_player_ids := Some [''model1''] \<rparr>,
             env := (env c)\<lparr> env_player_ids := Some [player_id m1, ''human''] \<rparr> \<rparr>)"

subsection \<open>The whole of \<open>main\<close>\<close>

text \<open>
  \<open>assemble\<close> is lines 85-195: it returns the process state at the point where it
  stopped, with the exception raised or the finished configuration. \<open>read_config\<close> is
  not part of the sources, so the function from the path to the loaded configuration
  is a parameter.
\<close>

definition config_path :: "world \<Rightarrow> string" where
  "config_path w = path_join (dirname (script_file w)) ''user_config.yaml''"

definition assemble ::
  "args \<Rightarrow> world \<Rightarrow> (string \<Rightarrow> ('a, 'e, 'c) user_config) \<Rightarrow> proc
     \<Rightarrow> proc \<times> (error + ('a, 'e, 'c) user_config)" where
  "assemble a w read_config p =
     (case ensure_sc2path (platform w) (isdir w) p of
        Inl e \<Rightarrow> (p, Inl e)
      | Inr p1 \<Rightarrow>
          (let c1 = base_overrides (read_config (config_path w));
               (p2, act2) = decide_device (cpu a) (mps_is_available w) (cuda_is_available w) p1 (actor c1);
               c2 = c1\<lparr> actor := act2 \<rparr>
           in case resolve_models (model1 a) (model2 a) (dirname (script_file w)) (path_exists w) (actor c2) of
                Inl e \<Rightarrow> (p2, Inl e)
              | Inr (act3, m1, m2) \<Rightarrow>
                  (case override_race (race_str (race a)) (c2\<lparr> actor := act3 \<rparr>) of
                     Inl e \<Rightarrow> (p2, Inl e)
                   | Inr c4 \<Rightarrow>
                       (p2, Inr (game_type_logic (game_type a) (model2 a) m1 m2 c4)))))"

text \<open>
  Lines 197-199: \<open>Actor(user_config)\<close> and \<open>actor.run()\<close>. \<open>actor_runs\<close> lists the
  configurations the Actor was run with, in call order.
\<close>

record ('a, 'e, 'c) outcome =
  raised :: "error option"
  proc_after :: proc
  actor_runs :: "('a, 'e, 'c) user_config list"

definition main ::
  "args \<Rightarrow> world \<Rightarrow> (string \<Rightarrow> ('a, 'e, 'c) user_config) \<Rightarrow> proc \<Rightarrow> ('a, 'e, 'c) outcome" where
  "main a w read_config p =
     (case assemble a w read_config p of
        (p', Inl e) \<Rightarrow> \<lparr> raised = Some e, proc_after = p', actor_runs = [] \<rparr>
      | (p', Inr c) \<Rightarrow> \<lparr> raised = None, proc_after = p', actor_runs = [c] \<rparr>)"

subsection \<open>The specification's reading of three notions\<close>

text \<open>
  The resolved path of a slot in the specification's words: an explicit name is joined
  to the base directory with \<open>.pth\<close> appended; otherwise the sentinel \<open>default\<close> is
  replaced by the fixed default model path; otherwise the existing value stays. \<open>None\<close>
  means that there is neither a name nor an existing value.
\<close>

definition slot_path :: "string option \<Rightarrow> string \<Rightarrow> string option \<Rightarrow> string option" where
  "slot_path arg dir existing =
     (case arg of
        Some n \<Rightarrow> Some (path_join dir (n @ ''.pth''))
      | None \<Rightarrow>
          (case existing of
             None \<Rightarrow> None
           | Some v \<Rightarrow> Some (if v = ''default'' then default_model_path dir else v)))"

text \<open>
  Agreement of the device field with the two backend flags: all three are set, the flags
  are not both true, and the device is \<open>mps\<close>, \<open>cuda\<close> or \<open>cpu\<close> exactly when
  \<open>use_mps\<close>, \<open>use_cuda\<close> or neither of them is true.
\<close>

definition device_flags_agree :: "'a actor_config_scheme \<Rightarrow> bool" where
  "device_flags_agree r =
     (case (device r, use_mps r, use_cuda r) of
        (Some d, Some um, Some uc) \<Rightarrow>
          \<not> (um \<and> uc) \<and> (d = ''mps'') = um \<and> (d = ''cuda'') = uc \<and>
          (d = ''cpu'') = (\<not> um \<and> \<not> uc)
      | _ \<Rightarrow> False)"

text \<open>
  A file name with its extension stripped, in the usual sense of \<open>os.path.splitext\<close>:
  the extension starts at the last dot of the name, and a name whose last dot has only
  dots before it has no extension. The specification describes an agent's identity
  as the base filename with the extension stripped; \<open>player_id\<close> above is what the
  code computes.
\<close>

definition strip_extension :: "string \<Rightarrow> string" where
  "strip_extension b =
     (let stem = rev (drop 1 (dropWhile (\<lambda>c. c \<noteq> CHR ''.'') (rev b)))
      in if CHR ''.'' \<in> set b \<and> \<not> list_all (\<lambda>c. c = CHR ''.'') stem then stem else b)"

subsection \<open>A concrete run\<close>

text \<open>
  The end-to-end scenario of the specification: \<open>--game_type agent_vs_agent --model1 foo
  --model2 bar --race protoss\<close> on a Mac without accelerator, \<open>SC2PATH\<close> unset, the game
  installed at its default place, and a configuration file that holds the baseline
  dictionary with two races. In \<open>bare_world\<close> no model file exists.
\<close>

definition scenario_args :: args where
  "scenario_args =
     \<lparr> model1 = Some ''foo'', model2 = Some ''bar'', cpu = False,
       game_type = agent_vs_agent, race = protoss \<rparr>"

definition scenario_world :: world where
  "scenario_world =
     \<lparr> platform = ''darwin'',
       isdir = (\<lambda>d. d = ''/Applications/StarCraft II''),
       path_exists = (\<lambda>f. f \<in> set [''/opt/distar/bin/foo.pth'', ''/opt/distar/bin/bar.pth'',
                                   ''/opt/distar/bin/bot7.pth'', ''/opt/distar/bin/rl_model.pth'',
                                   ''/opt/distar/bin/default.pth'', ''/opt/distar/bin/foo.v2.pth'']),
       mps_is_available = False, cuda_is_available = False,
       script_file = ''/opt/distar/bin/play.py'' \<rparr>"

definition bare_world :: world where
  "bare_world = scenario_world\<lparr> path_exists := (\<lambda>f. False) \<rparr>"

definition scenario_read_config :: "string \<Rightarrow> (unit, unit, unit) user_config" where
  "scenario_read_config path =
     load_default_config\<lparr> env := (env load_default_config)\<lparr> races := Some [''zerg'', ''zerg''] \<rparr> \<rparr>"

definition scenario_proc :: proc where
  "scenario_proc = \<lparr> environ = Map.empty, stdout = [], probed = [] \<rparr>"

text \<open>
  The configuration that the scenario hands to the Actor, as the specification gives it:
  device \<open>cpu\<close>, player identities \<open>foo\<close> and \<open>bar\<close>, race index 1 \<open>protoss\<close>.
\<close>

definition scenario_final :: "(unit, unit, unit) user_config" where
  "scenario_final =
     \<lparr> actor = \<lparr> job_type = Some ''eval_test'', episode_num = Some 1, use_cuda = Some False,
                 use_mps = Some False, device = Some ''cpu'',
                 model_paths = Some [''model1'' \<mapsto> ''/opt/distar/bin/foo.pth'',
                                     ''model2'' \<mapsto> ''/opt/distar/bin/bar.pth''],
                 actor_player_ids = Some [] \<rparr>,
       env = \<lparr> realtime = Some True, races = Some [''zerg'', ''protoss''],
               env_player_ids = Some [''foo'', ''bar''] \<rparr>,
       common = \<lparr> common_type = Some ''play'' \<rparr> \<rparr>"

section \<open>Properties\<close>

subsection \<open>Paths\<close>

lemma last_path_join: "b \<noteq> [] \<Longrightarrow> last (path_join a b) = last b"
  by (simp add: path_join_def)

lemma path_join_pth_not_default: "path_join dir (n @ ''.pth'') \<noteq> ''default''"
proof
  assume "path_join dir (n @ ''.pth'') = ''default''"
  then have "last (path_join dir (n @ ''.pth'')) = last ''default''" by simp
  then show False by (simp add: last_path_join)
qed

lemma default_model_path_not_default: "default_model_path dir \<noteq> ''default''"
  using path_join_pth_not_default [of dir "''rl_model''"] by (simp add: default_model_path_def)

lemma takeWhile_neq_stop: "c \<notin> set xs \<Longrightarrow> takeWhile (\<lambda>x. x \<noteq> c) (xs @ c # ys) = xs"
  by (induction xs) auto

lemma takeWhile_neq_all: "c \<notin> set xs \<Longrightarrow> takeWhile (\<lambda>x. x \<noteq> c) xs = xs"
  by (induction xs) auto

lemma basename_append:
  assumes "sep \<notin> set b" and "a = [] \<or> last a = sep"
  shows "basename (a @ b) = b"
proof -
  have tw: "takeWhile (\<lambda>c. c \<noteq> sep) (rev b @ rev a) = rev b"
  proof (cases "a = []")
    case True
    with assms(1) show ?thesis by (simp add: takeWhile_neq_all)
  next
    case False
    with assms(2) have "hd (rev a) = sep" by (simp add: hd_rev)
    moreover from False have "rev a \<noteq> []" by simp
    ultimately obtain t where "rev a = sep # t" by (cases "rev a") auto
    with assms(1) show ?thesis by (simp add: takeWhile_neq_stop)
  qed
  then show ?thesis by (simp add: basename_def rfind_sep_plus1_def)
qed

lemma player_id_of_name:
  assumes "sep \<notin> set n" and "CHR ''.'' \<notin> set n"
  shows "player_id (path_join dir (n @ ''.pth'')) = n"
proof -
  have nb: "sep \<notin> set (n @ ''.pth'')" using assms(1) by (simp add: sep_def)
  have hd: "hd (n @ ''.pth'') \<noteq> sep" using assms(1) by (cases n) (auto simp: sep_def)
  have "basename (path_join dir (n @ ''.pth'')) = n @ ''.pth''"
  proof (cases "dir = [] \<or> last dir = sep")
    case True
    then have "path_join dir (n @ ''.pth'') = dir @ (n @ ''.pth'')"
      using hd by (simp add: path_join_def)
    with basename_append [OF nb True] show ?thesis by simp
  next
    case False
    then have "path_join dir (n @ ''.pth'') = (dir @ [sep]) @ (n @ ''.pth'')"
      using hd by (simp add: path_join_def)
    with basename_append [OF nb, of "dir @ [sep]"] show ?thesis by simp
  qed
  then show ?thesis
    using takeWhile_neq_stop [OF assms(2), of "''pth''"] by (simp add: player_id_def split_dot_0_def)
qed

subsection \<open>Base names and extensions\<close>

lemma basename_eq: "basename p = rev (takeWhile (\<lambda>c. c \<noteq> sep) (rev p))"
proof -
  let ?tw = "takeWhile (\<lambda>c. c \<noteq> sep) (rev p)"
  let ?dw = "dropWhile (\<lambda>c. c \<noteq> sep) (rev p)"
  have "rev p = ?tw @ ?dw" by simp
  then have p: "p = rev ?dw @ rev ?tw" by (metis rev_append rev_rev_ident)
  have "length (rev ?dw) = length p - length ?tw"
    by (metis \<open>rev p = ?tw @ ?dw\<close> add_diff_cancel_left' length_append length_rev)
  then have "drop (length p - length ?tw) (rev ?dw @ rev ?tw) = rev ?tw" by simp
  with p show ?thesis by (simp add: basename_def rfind_sep_plus1_def)
qed

lemma basename_decomp:
  "\<exists>d. p = d @ basename p \<and> sep \<notin> set (basename p) \<and> (d = [] \<or> last d = sep)"
proof -
  let ?tw = "takeWhile (\<lambda>c. c \<noteq> sep) (rev p)"
  let ?dw = "dropWhile (\<lambda>c. c \<noteq> sep) (rev p)"
  have "rev p = ?tw @ ?dw" by simp
  then have p: "p = rev ?dw @ basename p" by (metis basename_eq rev_append rev_rev_ident)
  have no: "sep \<notin> set (basename p)"
    using set_takeWhileD [of sep "\<lambda>c. c \<noteq> sep" "rev p"] by (auto simp: basename_eq)
  have "rev ?dw = [] \<or> last (rev ?dw) = sep"
  proof (cases ?dw)
    case Nil
    then show ?thesis by simp
  next
    case (Cons x xs)
    then have "x = sep" using hd_dropWhile [of "\<lambda>c. c \<noteq> sep" "rev p"] by auto
    with Cons show ?thesis by simp
  qed
  with p no show ?thesis by blast
qed

lemma strip_extension_no_dot: "CHR ''.'' \<notin> set b \<Longrightarrow> strip_extension b = b"
  by (simp add: strip_extension_def Let_def)

lemma strip_extension_last_dot:
  assumes "CHR ''.'' \<notin> set suf"
  shows "strip_extension (pre @ CHR ''.'' # suf) =
     (if list_all (\<lambda>c. c = CHR ''.'') pre then pre @ CHR ''.'' # suf else pre)"
proof -
  have "dropWhile (\<lambda>c. c \<noteq> CHR ''.'') (rev suf @ CHR ''.'' # rev pre) = CHR ''.'' # rev pre"
    using assms by (auto simp: dropWhile_append3)
  then show ?thesis by (simp add: strip_extension_def Let_def)
qed

lemma cut_eq_strip_iff:
  "takeWhile (\<lambda>c. c \<noteq> CHR ''.'') b = strip_extension b \<longleftrightarrow>
     length (filter (\<lambda>c. c = CHR ''.'') b) \<le> 1 \<and> \<not> prefix ''.'' b"
proof (cases "CHR ''.'' \<in> set b")
  case False
  then have "filter (\<lambda>c. c = CHR ''.'') b = []" by (auto simp: filter_empty_conv)
  moreover from False have "\<not> prefix ''.'' b" by (cases b) auto
  ultimately show ?thesis
    using False by (simp add: strip_extension_no_dot takeWhile_neq_all)
next
  case True
  from split_list_first [OF True] obtain pre suf where
    b1: "b = pre @ CHR ''.'' # suf" and pre: "CHR ''.'' \<notin> set pre" by blast
  from split_list_last [OF True] obtain pre' suf' where
    b2: "b = pre' @ CHR ''.'' # suf'" and suf': "CHR ''.'' \<notin> set suf'" by blast
  have tw: "takeWhile (\<lambda>c. c \<noteq> CHR ''.'') b = pre"
    using b1 pre by (simp add: takeWhile_neq_stop)
  have st: "strip_extension b = (if list_all (\<lambda>c. c = CHR ''.'') pre' then b else pre')"
    using b2 suf' strip_extension_last_dot [OF suf', of pre'] by simp
  have fpre: "filter (\<lambda>c. c = CHR ''.'') pre = []" using pre by (auto simp: filter_empty_conv)
  have fsuf': "filter (\<lambda>c. c = CHR ''.'') suf' = []" using suf' by (auto simp: filter_empty_conv)
  have cnt1: "length (filter (\<lambda>c. c = CHR ''.'') b) = Suc (length (filter (\<lambda>c. c = CHR ''.'') suf))"
    using b1 fpre by simp
  have cnt2: "length (filter (\<lambda>c. c = CHR ''.'') b) = Suc (length (filter (\<lambda>c. c = CHR ''.'') pre'))"
    using b2 fsuf' by simp
  have pf: "prefix ''.'' b \<longleftrightarrow> pre = []"
    using b1 pre by (cases pre) auto
  have neq_b: "pre \<noteq> b" using b1 by simp
  show ?thesis
  proof
    assume eq: "takeWhile (\<lambda>c. c \<noteq> CHR ''.'') b = strip_extension b"
    with tw st neq_b have nall: "\<not> list_all (\<lambda>c. c = CHR ''.'') pre'" and pp: "pre = pre'"
      by (auto split: if_splits)
    from nall pp have "pre \<noteq> []" by auto
    moreover from pp pre have "filter (\<lambda>c. c = CHR ''.'') pre' = []" using fpre by simp
    with cnt2 have "length (filter (\<lambda>c. c = CHR ''.'') b) \<le> 1" by simp
    ultimately show "length (filter (\<lambda>c. c = CHR ''.'') b) \<le> 1 \<and> \<not> prefix ''.'' b"
      using pf by simp
  next
    assume c: "length (filter (\<lambda>c. c = CHR ''.'') b) \<le> 1 \<and> \<not> prefix ''.'' b"
    with cnt2 have "filter (\<lambda>c. c = CHR ''.'') pre' = []" by simp
    then have pre': "CHR ''.'' \<notin> set pre'" by (auto simp: filter_empty_conv)
    then have "takeWhile (\<lambda>c. c \<noteq> CHR ''.'') b = pre'"
      using b2 by (simp add: takeWhile_neq_stop)
    with tw have pp: "pre = pre'" by simp
    from c pf have "pre \<noteq> []" by simp
    with pp pre' have "\<not> list_all (\<lambda>c. c = CHR ''.'') pre'"
      by (cases pre') auto
    with st tw pp show "takeWhile (\<lambda>c. c \<noteq> CHR ''.'') b = strip_extension b" by simp
  qed
qed

subsection \<open>Model resolution\<close>

lemma resolve_slot_eq:
  "resolve_slot slot arg dir mp =
     (case slot_path arg dir (mp slot) of
        None \<Rightarrow> Inl (KeyError slot)
      | Some r \<Rightarrow> Inr (mp(slot \<mapsto> r), r))"
  by (auto simp: resolve_slot_def slot_path_def path_join_pth_not_default fun_upd_idem
      split: option.splits)

lemma slot_path_not_default: "slot_path arg dir e = Some r \<Longrightarrow> r \<noteq> ''default''"
  by (auto simp: slot_path_def path_join_pth_not_default default_model_path_not_default
      split: option.splits if_splits)

lemma slot_path_idem: "slot_path arg dir e = Some r \<Longrightarrow> slot_path None dir (Some r) = Some r"
  using slot_path_not_default [of arg dir e r] by (simp add: slot_path_def)

lemma resolve_slot_idem:
  assumes "resolve_slot slot arg dir mp = Inr (mp', m)"
  shows "resolve_slot slot None dir mp' = Inr (mp', m)"
proof -
  from assms have sp: "slot_path arg dir (mp slot) = Some m" and mp': "mp' = mp(slot \<mapsto> m)"
    by (auto simp: resolve_slot_eq split: option.splits)
  from slot_path_idem [OF sp] mp' show ?thesis
    by (simp add: resolve_slot_eq)
qed

lemma resolve_models_eq:
  assumes "model_paths a = Some mp"
    and "slot_path arg1 dir (mp ''model1'') = Some r1"
    and "slot_path arg2 dir (mp ''model2'') = Some r2"
  shows "resolve_models arg1 arg2 dir ex a =
     (if \<not> ex r1 then Inl (FileNotFoundError (''[ERROR] Model1 is nowhere to be found at '' @ r1))
      else if \<not> ex r2 then Inl (FileNotFoundError (''[ERROR] Model2 is nowhere to be found at '' @ r2))
      else Inr (a\<lparr> model_paths := Some (mp(''model1'' \<mapsto> r1, ''model2'' \<mapsto> r2)) \<rparr>, r1, r2))"
  using assms by (simp add: resolve_models_def resolve_slot_eq)

lemma resolve_models_Inr_D:
  "resolve_models arg1 arg2 dir ex a = Inr (a', m1, m2) \<Longrightarrow>
    \<exists>mp. model_paths a = Some mp \<and> slot_path arg1 dir (mp ''model1'') = Some m1 \<and>
          slot_path arg2 dir (mp ''model2'') = Some m2 \<and> ex m1 \<and> ex m2 \<and>
          a' = a\<lparr> model_paths := Some (mp(''model1'' \<mapsto> m1, ''model2'' \<mapsto> m2)) \<rparr>"
  by (auto simp: resolve_models_def resolve_slot_eq split: option.splits if_splits)

subsection \<open>Stages that leave fields alone\<close>

lemma base_overrides_keeps:
  "model_paths (actor (base_overrides c)) = model_paths (actor c)"
  "races (env (base_overrides c)) = races (env c)"
  by (simp_all add: base_overrides_def)

lemma decide_device_keeps:
  "model_paths (snd (decide_device cpu_flag mps cuda p a)) = model_paths a"
  by (simp add: decide_device_def)

lemma decide_device_flags: "device_flags_agree (snd (decide_device cpu_flag mps cuda p a))"
  by (simp add: decide_device_def device_flags_agree_def)

lemma decide_device_device:
  "device (snd (decide_device cpu_flag mps cuda p a)) =
     Some (if cpu_flag then ''cpu'' else if mps then ''mps'' else if cuda then ''cuda'' else ''cpu'')"
  by (simp add: decide_device_def)

lemma game_type_logic_keeps:
  "device (actor (game_type_logic gt arg2 m1 m2 c)) = device (actor c)"
  "use_mps (actor (game_type_logic gt arg2 m1 m2 c)) = use_mps (actor c)"
  "use_cuda (actor (game_type_logic gt arg2 m1 m2 c)) = use_cuda (actor c)"
  "model_paths (actor (game_type_logic gt arg2 m1 m2 c)) = model_paths (actor c)"
  "races (env (game_type_logic gt arg2 m1 m2 c)) = races (env c)"
  by (simp_all add: game_type_logic_def split: game_type.splits)

lemma override_race_Inr_D:
  "override_race r c = Inr c' \<Longrightarrow>
     \<exists>rs. races (env c) = Some rs \<and> 2 \<le> length rs \<and>
          c' = c\<lparr> env := (env c)\<lparr> races := Some (rs[1 := r]) \<rparr> \<rparr>"
  by (auto simp: override_race_def split: option.splits if_splits)

lemma ensure_sc2path_ok_iff:
  "(\<exists>p1. ensure_sc2path plat is_dir p = Inr p1) \<longleftrightarrow>
     (if environ_get p ''SC2PATH'' [] = [] then plat = ''darwin'' \<and> is_dir mac_default_sc2
      else is_dir (environ_get p ''SC2PATH'' []))"
  by (simp add: ensure_sc2path_def Let_def)

subsection \<open>The stages of a run that reaches the Actor\<close>

lemma assemble_Inr_D:
  assumes "snd (assemble a w rc p) = Inr c"
  shows "\<exists>p1 act3 m1 m2 c4.
     ensure_sc2path (platform w) (isdir w) p = Inr p1 \<and>
     resolve_models (model1 a) (model2 a) (dirname (script_file w)) (path_exists w)
       (snd (decide_device (cpu a) (mps_is_available w) (cuda_is_available w) p1
               (actor (base_overrides (rc (config_path w)))))) = Inr (act3, m1, m2) \<and>
     override_race (race_str (race a)) ((base_overrides (rc (config_path w)))\<lparr> actor := act3 \<rparr>) = Inr c4 \<and>
     c = game_type_logic (game_type a) (model2 a) m1 m2 c4"
  using assms
  by (auto simp: assemble_def Let_def split: sum.splits prod.splits)

lemma assemble_Inr_I:
  assumes "ensure_sc2path (platform w) (isdir w) p = Inr p1"
    and "resolve_models (model1 a) (model2 a) (dirname (script_file w)) (path_exists w)
       (snd (decide_device (cpu a) (mps_is_available w) (cuda_is_available w) p1
               (actor (base_overrides (rc (config_path w)))))) = Inr (act3, m1, m2)"
    and "override_race (race_str (race a)) ((base_overrides (rc (config_path w)))\<lparr> actor := act3 \<rparr>) = Inr c4"
  shows "snd (assemble a w rc p) = Inr (game_type_logic (game_type a) (model2 a) m1 m2 c4)"
  using assms
  by (auto simp: assemble_def Let_def split: sum.splits prod.splits)

text \<open>What a finished configuration tells about the inputs.\<close>

lemma assemble_Inr_facts:
  assumes "snd (assemble a w rc p) = Inr c"
  shows "\<exists>p1 mp r1 r2 rs.
     ensure_sc2path (platform w) (isdir w) p = Inr p1 \<and>
     model_paths (actor (rc (config_path w))) = Some mp \<and>
     slot_path (model1 a) (dirname (script_file w)) (mp ''model1'') = Some r1 \<and>
     slot_path (model2 a) (dirname (script_file w)) (mp ''model2'') = Some r2 \<and>
     path_exists w r1 \<and> path_exists w r2 \<and>
     races (env (rc (config_path w))) = Some rs \<and> 2 \<le> length rs \<and>
     c = game_type_logic (game_type a) (model2 a) r1 r2
           ((base_overrides (rc (config_path w)))
              \<lparr> actor := (snd (decide_device (cpu a) (mps_is_available w) (cuda_is_available w) p1
                                  (actor (base_overrides (rc (config_path w))))))
                            \<lparr> model_paths := Some (mp(''model1'' \<mapsto> r1, ''model2'' \<mapsto> r2)) \<rparr>,
                 env := (env (base_overrides (rc (config_path w))))
                          \<lparr> races := Some (rs[1 := race_str (race a)]) \<rparr> \<rparr>)"
proof -
  let ?c1 = "base_overrides (rc (config_path w))"
  from assemble_Inr_D [OF assms] obtain p1 act3 m1 m2 c4 where
    e: "ensure_sc2path (platform w) (isdir w) p = Inr p1"
    and r: "resolve_models (model1 a) (model2 a) (dirname (script_file w)) (path_exists w)
       (snd (decide_device (cpu a) (mps_is_available w) (cuda_is_available w) p1 (actor ?c1)))
         = Inr (act3, m1, m2)"
    and o: "override_race (race_str (race a)) (?c1\<lparr> actor := act3 \<rparr>) = Inr c4"
    and c: "c = game_type_logic (game_type a) (model2 a) m1 m2 c4"
    by blast
  from resolve_models_Inr_D [OF r] obtain mp where
    mp: "model_paths (actor (rc (config_path w))) = Some mp"
    and s1: "slot_path (model1 a) (dirname (script_file w)) (mp ''model1'') = Some m1"
    and s2: "slot_path (model2 a) (dirname (script_file w)) (mp ''model2'') = Some m2"
    and ex: "path_exists w m1" "path_exists w m2"
    and act3: "act3 = (snd (decide_device (cpu a) (mps_is_available w) (cuda_is_available w) p1 (actor ?c1)))
                 \<lparr> model_paths := Some (mp(''model1'' \<mapsto> m1, ''model2'' \<mapsto> m2)) \<rparr>"
    by (auto simp: decide_device_keeps base_overrides_keeps)
  from override_race_Inr_D [OF o] obtain rs where
    rs: "races (env (rc (config_path w))) = Some rs" "2 \<le> length rs"
    and c4: "c4 = (?c1\<lparr> actor := act3 \<rparr>)\<lparr> env := (env (?c1\<lparr> actor := act3 \<rparr>))\<lparr> races := Some (rs[1 := race_str (race a)]) \<rparr> \<rparr>"
    by (auto simp: base_overrides_keeps)
  from c c4 act3 have "c = game_type_logic (game_type a) (model2 a) m1 m2
           (?c1\<lparr> actor := (snd (decide_device (cpu a) (mps_is_available w) (cuda_is_available w) p1 (actor ?c1)))
                            \<lparr> model_paths := Some (mp(''model1'' \<mapsto> m1, ''model2'' \<mapsto> m2)) \<rparr>,
                 env := (env ?c1)\<lparr> races := Some (rs[1 := race_str (race a)]) \<rparr> \<rparr>)"
    by simp
  with e mp s1 s2 ex rs show ?thesis by blast
qed

lemma assemble_ok_iff:
  "(\<exists>c. snd (assemble a w rc p) = Inr c) \<longleftrightarrow>
     (\<exists>p1. ensure_sc2path (platform w) (isdir w) p = Inr p1) \<and>
     (\<exists>mp r1 r2. model_paths (actor (rc (config_path w))) = Some mp \<and>
        slot_path (model1 a) (dirname (script_file w)) (mp ''model1'') = Some r1 \<and>
        slot_path (model2 a) (dirname (script_file w)) (mp ''model2'') = Some r2 \<and>
        path_exists w r1 \<and> path_exists w r2) \<and>
     (\<exists>rs. races (env (rc (config_path w))) = Some rs \<and> 2 \<le> length rs)"
  (is "?L \<longleftrightarrow> ?R")
proof
  assume ?L
  then obtain c where "snd (assemble a w rc p) = Inr c" ..
  from assemble_Inr_facts [OF this] show ?R by blast
next
  let ?c1 = "base_overrides (rc (config_path w))"
  assume ?R
  then obtain p1 mp r1 r2 rs where
    e: "ensure_sc2path (platform w) (isdir w) p = Inr p1"
    and mp: "model_paths (actor (rc (config_path w))) = Some mp"
    and s: "slot_path (model1 a) (dirname (script_file w)) (mp ''model1'') = Some r1"
       "slot_path (model2 a) (dirname (script_file w)) (mp ''model2'') = Some r2"
    and ex: "path_exists w r1" "path_exists w r2"
    and rs: "races (env (rc (config_path w))) = Some rs" "2 \<le> length rs"
    by blast
  let ?a2 = "snd (decide_device (cpu a) (mps_is_available w) (cuda_is_available w) p1 (actor ?c1))"
  from mp have "model_paths ?a2 = Some mp"
    by (simp add: decide_device_keeps base_overrides_keeps)
  from resolve_models_eq [OF this s] ex
  have r: "resolve_models (model1 a) (model2 a) (dirname (script_file w)) (path_exists w) ?a2 =
      Inr (?a2\<lparr> model_paths := Some (mp(''model1'' \<mapsto> r1, ''model2'' \<mapsto> r2)) \<rparr>, r1, r2)"
    by simp
  from rs obtain c4 where
    o: "override_race (race_str (race a))
          (?c1\<lparr> actor := ?a2\<lparr> model_paths := Some (mp(''model1'' \<mapsto> r1, ''model2'' \<mapsto> r2)) \<rparr> \<rparr>) = Inr c4"
    by (auto simp: override_race_def base_overrides_keeps)
  have "snd (assemble a w rc p) =
      Inr (game_type_logic (game_type a) (model2 a) r1 r2 c4)"
    using e r o by (rule assemble_Inr_I)
  then show ?L by blast
qed

subsection \<open>Player identities\<close>

lemma bot_level_eq:
  "bot_level arg2 = (case arg2 of None \<Rightarrow> ''bot10'' | Some m \<Rightarrow> if sublist ''bot'' m then m else ''bot10'')"
  by (auto simp: bot_level_def split: option.splits)

lemma assemble_player_ids:
  assumes "snd (assemble a w rc p) = Inr c"
  shows "\<exists>mp r1 r2.
     model_paths (actor (rc (config_path w))) = Some mp \<and>
     slot_path (model1 a) (dirname (script_file w)) (mp ''model1'') = Some r1 \<and>
     slot_path (model2 a) (dirname (script_file w)) (mp ''model2'') = Some r2 \<and>
     env_player_ids (env c) =
       Some [player_id r1,
             case game_type a of
               agent_vs_agent \<Rightarrow> player_id r2
             | agent_vs_bot \<Rightarrow> bot_level (model2 a)
             | human_vs_agent \<Rightarrow> ''human'']"
proof -
  from assemble_Inr_facts [OF assms] obtain p1 mp r1 r2 rs where
    mp: "model_paths (actor (rc (config_path w))) = Some mp"
    and s: "slot_path (model1 a) (dirname (script_file w)) (mp ''model1'') = Some r1"
      "slot_path (model2 a) (dirname (script_file w)) (mp ''model2'') = Some r2"
    and c: "c = game_type_logic (game_type a) (model2 a) r1 r2
           ((base_overrides (rc (config_path w)))
              \<lparr> actor := (snd (decide_device (cpu a) (mps_is_available w) (cuda_is_available w) p1
                                  (actor (base_overrides (rc (config_path w))))))
                            \<lparr> model_paths := Some (mp(''model1'' \<mapsto> r1, ''model2'' \<mapsto> r2)) \<rparr>,
                 env := (env (base_overrides (rc (config_path w))))
                          \<lparr> races := Some (rs[1 := race_str (race a)]) \<rparr> \<rparr>)"
    by blast
  from c have "env_player_ids (env c) =
       Some [player_id r1,
             case game_type a of
               agent_vs_agent \<Rightarrow> player_id r2
             | agent_vs_bot \<Rightarrow> bot_level (model2 a)
             | human_vs_agent \<Rightarrow> ''human'']"
    by (simp add: game_type_logic_def split: game_type.splits)
  with mp s show ?thesis by blast
qed

subsection \<open>The outcome of main\<close>

lemma main_raised:
  "raised (main a w rc p) = (case snd (assemble a w rc p) of Inl e \<Rightarrow> Some e | Inr c \<Rightarrow> None)"
  by (simp add: main_def split: prod.splits sum.splits)

lemma main_actor_runs:
  "actor_runs (main a w rc p) = (case snd (assemble a w rc p) of Inl e \<Rightarrow> [] | Inr c \<Rightarrow> [c])"
  by (simp add: main_def split: prod.splits sum.splits)

lemma assemble_resolve_Inl:
  assumes "ensure_sc2path (platform w) (isdir w) p = Inr p1"
    and "resolve_models (model1 a) (model2 a) (dirname (script_file w)) (path_exists w)
       (snd (decide_device (cpu a) (mps_is_available w) (cuda_is_available w) p1
               (actor (base_overrides (rc (config_path w)))))) = Inl e"
  shows "snd (assemble a w rc p) = Inl e"
  using assms by (auto simp: assemble_def Let_def split: sum.splits prod.splits)

subsection \<open>Evaluating the concrete run\<close>

lemmas path_defs = dirname_def basename_def rfind_sep_plus1_def rstrip_sep_def sep_def path_join_def
  split_dot_0_def player_id_def default_model_path_def config_path_def

lemmas scenario_defs = scenario_args_def scenario_world_def bare_world_def scenario_read_config_def
  scenario_proc_def load_default_config_def

lemmas stage_defs = assemble_def ensure_sc2path_def environ_get_def mac_default_sc2_def
  base_overrides_def decide_device_def resolve_models_def resolve_slot_def override_race_def
  game_type_logic_def bot_level_def

lemma scenario_assemble:
  "snd (assemble scenario_args scenario_world scenario_read_config scenario_proc) = Inr scenario_final"
  by (simp add: stage_defs scenario_defs path_defs scenario_final_def Let_def)

lemma scenario_assemble_bot:
  "snd (assemble (scenario_args\<lparr> game_type := agent_vs_bot, model2 := Some ''bot7'' \<rparr>)
         scenario_world scenario_read_config scenario_proc) =
   Inr (scenario_final
          \<lparr> actor := (actor scenario_final)
               \<lparr> model_paths := Some [''model1'' \<mapsto> ''/opt/distar/bin/foo.pth'',
                                       ''model2'' \<mapsto> ''/opt/distar/bin/bot7.pth''],
                 actor_player_ids := Some [''model1''] \<rparr>,
            env := (env scenario_final)\<lparr> env_player_ids := Some [''foo'', ''bot7''] \<rparr> \<rparr>)"
  by (simp add: stage_defs scenario_defs path_defs scenario_final_def Let_def sublist_code)

lemma scenario_assemble_human:
  "snd (assemble (scenario_args\<lparr> game_type := human_vs_agent, model1 := None, model2 := None \<rparr>)
         scenario_world scenario_read_config scenario_proc) =
   Inr (scenario_final
          \<lparr> actor := (actor scenario_final)
               \<lparr> model_paths := Some [''model1'' \<mapsto> ''/opt/distar/bin/rl_model.pth'',
                                       ''model2'' \<mapsto> ''/opt/distar/bin/rl_model.pth''],
                 actor_player_ids := Some [''model1''] \<rparr>,
            env := (env scenario_final)\<lparr> env_player_ids := Some [''rl_model'', ''human''] \<rparr> \<rparr>)"
  by (simp add: stage_defs scenario_defs path_defs scenario_final_def Let_def)

lemma scenario_main_missing_models:
  "raised (main (scenario_args\<lparr> game_type := human_vs_agent, model1 := None \<rparr>) bare_world
             scenario_read_config scenario_proc) =
   Some (FileNotFoundError ''[ERROR] Model1 is nowhere to be found at /opt/distar/bin/rl_model.pth'')"
  by (simp add: main_raised stage_defs scenario_defs path_defs Let_def)

lemma scenario_assemble_bare:
  "snd (assemble scenario_args bare_world scenario_read_config scenario_proc) =
   Inl (FileNotFoundError ''[ERROR] Model1 is nowhere to be found at /opt/distar/bin/foo.pth'')"
  by (simp add: stage_defs scenario_defs path_defs Let_def)

lemma scenario_assemble_human_foo:
  "\<exists>c. snd (assemble (scenario_args\<lparr> game_type := human_vs_agent \<rparr>)
         scenario_world scenario_read_config scenario_proc) = Inr c"
  by (simp add: stage_defs scenario_defs path_defs Let_def)

subsection \<open>C1: accelerator selection\<close>

text \<open>
  Claim C1. Accelerator selection is a total function of the \<open>--cpu\<close> flag and the two
  availabilities: \<open>decide_device\<close> has no error result. With the flag the device is
  \<open>cpu\<close> and nothing is probed: the probe log is unchanged and the result is the same
  whatever the availabilities are. Without the flag the device is \<open>mps\<close> if Metal is
  available, else \<open>cuda\<close> if CUDA is available, else \<open>cpu\<close>. The device is always one
  of these three, and a configuration that reaches the Actor carries the selected device.
\<close>

theorem C1_accelerator_selection_total:
  "device (snd (decide_device cpu_flag mps cuda p a)) =
     Some (if cpu_flag then ''cpu'' else if mps then ''mps'' else if cuda then ''cuda'' else ''cpu'')
   \<and> device (snd (decide_device cpu_flag mps cuda p a)) \<in> {Some ''cpu'', Some ''mps'', Some ''cuda''}
   \<and> probed (fst (decide_device True mps cuda p a)) = probed p
   \<and> decide_device True mps cuda p a = decide_device True mps' cuda' p a
   \<and> (snd (assemble args w rc p) = Inr c \<longrightarrow>
        device (actor c) =
          Some (if cpu args then ''cpu'' else if mps_is_available w then ''mps''
                else if cuda_is_available w then ''cuda'' else ''cpu''))"
proof -
  have "device (actor c) =
          Some (if cpu args then ''cpu'' else if mps_is_available w then ''mps''
                else if cuda_is_available w then ''cuda'' else ''cpu'')"
    if "snd (assemble args w rc p) = Inr c"
  proof -
    from assemble_Inr_facts [OF that] obtain p1 where
      "device (actor c) = device (snd (decide_device (cpu args) (mps_is_available w)
          (cuda_is_available w) p1 (actor (base_overrides (rc (config_path w))))))"
      by (auto simp: game_type_logic_keeps)
    then show ?thesis by (simp only: decide_device_device)
  qed
  moreover have "decide_device True mps cuda p a = decide_device True mps' cuda' p a"
    by (simp add: decide_device_def)
  moreover have "probed (fst (decide_device True mps cuda p a)) = probed p"
    by (simp add: decide_device_def)
  moreover have "device (snd (decide_device cpu_flag mps cuda p a)) \<in>
      {Some ''cpu'', Some ''mps'', Some ''cuda''}"
    by (simp add: decide_device_device)
  ultimately show ?thesis
    using decide_device_device [of cpu_flag mps cuda p a] by blast
qed

text \<open>
  C1 at concrete inputs: CUDA alone available selects \<open>cuda\<close>; \<open>--cpu\<close> probes nothing;
  the scenario, with no accelerator, runs on \<open>cpu\<close>.
\<close>

theorem C1_accelerator_selection_witness:
  "device (snd (decide_device False False True scenario_proc (actor load_default_config))) = Some ''cuda''
   \<and> probed (fst (decide_device True False True scenario_proc (actor load_default_config))) = []
   \<and> (\<exists>c. snd (assemble scenario_args scenario_world scenario_read_config scenario_proc) = Inr c \<and>
          device (actor c) = Some ''cpu'')"
proof -
  note t = C1_accelerator_selection_total [of False False True scenario_proc
      "actor load_default_config" True True scenario_args scenario_world scenario_read_config
      scenario_final]
  from t have 1: "device (snd (decide_device False False True scenario_proc
      (actor load_default_config))) = Some ''cuda''"
    by simp
  from t have "probed (fst (decide_device True False True scenario_proc
      (actor load_default_config))) = probed scenario_proc"
    by blast
  then have 2: "probed (fst (decide_device True False True scenario_proc
      (actor load_default_config))) = []"
    by (simp add: scenario_proc_def)
  from t scenario_assemble have "device (actor scenario_final) =
      Some (if cpu scenario_args then ''cpu'' else if mps_is_available scenario_world then ''mps''
            else if cuda_is_available scenario_world then ''cuda'' else ''cpu'')"
    by blast
  then have "device (actor scenario_final) = Some ''cpu''"
    by (simp add: scenario_args_def scenario_world_def)
  with scenario_assemble have 3:
    "\<exists>c. snd (assemble scenario_args scenario_world scenario_read_config scenario_proc) = Inr c \<and>
          device (actor c) = Some ''cpu''"
    by blast
  from 1 2 3 show ?thesis by blast
qed

subsection \<open>C2: device and flags\<close>

text \<open>
  Claim C2 as stated asks that exactly one of \<open>use_mps\<close> and \<open>use_cuda\<close> be true after
  selection. With \<open>--cpu\<close> both flags are false, even when both backends are available.
\<close>

theorem C2_counterexample:
  "use_mps (snd (decide_device True True True scenario_proc (actor load_default_config))) = Some False
   \<and> use_cuda (snd (decide_device True True True scenario_proc (actor load_default_config))) = Some False
   \<and> device (snd (decide_device True True True scenario_proc (actor load_default_config))) = Some ''cpu''"
  by (simp add: decide_device_def)

text \<open>
  Claim C2, amended. After accelerator selection, and in every configuration that reaches
  the Actor, the device and both flags are set, at most one of \<open>use_mps\<close> and \<open>use_cuda\<close>
  is true, and the device is \<open>mps\<close> exactly when \<open>use_mps\<close> is true, \<open>cuda\<close> exactly when
  \<open>use_cuda\<close> is true, and \<open>cpu\<close> exactly when neither is.
\<close>

theorem C2_device_flags_agree:
  "device_flags_agree (snd (decide_device cpu_flag mps cuda p a)) \<and>
   (snd (assemble args w rc p) = Inr c \<longrightarrow> device_flags_agree (actor c))"
proof -
  have "device_flags_agree (actor c)" if "snd (assemble args w rc p) = Inr c"
  proof -
    let ?c1 = "base_overrides (rc (config_path w))"
    from assemble_Inr_facts [OF that] obtain p1 where
      "device (actor c) = device (snd (decide_device (cpu args) (mps_is_available w)
          (cuda_is_available w) p1 (actor ?c1)))"
      "use_mps (actor c) = use_mps (snd (decide_device (cpu args) (mps_is_available w)
          (cuda_is_available w) p1 (actor ?c1)))"
      "use_cuda (actor c) = use_cuda (snd (decide_device (cpu args) (mps_is_available w)
          (cuda_is_available w) p1 (actor ?c1)))"
      by (auto simp: game_type_logic_keeps)
    with decide_device_flags [of "cpu args" "mps_is_available w" "cuda_is_available w" p1 "actor ?c1"]
    show ?thesis by (simp add: device_flags_agree_def)
  qed
  with decide_device_flags show ?thesis by blast
qed

text \<open>
  C2 at concrete inputs: selection with CUDA alone available, and the scenario.
\<close>

theorem C2_device_flags_agree_witness:
  "device_flags_agree (snd (decide_device False False True scenario_proc (actor load_default_config)))
   \<and> (\<exists>c. snd (assemble scenario_args scenario_world scenario_read_config scenario_proc) = Inr c \<and>
          device_flags_agree (actor c))"
  using C2_device_flags_agree [of False False True scenario_proc "actor load_default_config"
      scenario_args scenario_world scenario_read_config scenario_final]
    scenario_assemble
  by blast

subsection \<open>C3: failures of the environment locator\<close>

text \<open>
  Claim C3. Locating the game fails with \<open>EnvironmentError\<close> (EnvironmentNotFound) exactly
  when \<open>SC2PATH\<close> is unset or empty and either the platform is not \<open>darwin\<close> or the default
  location is not a directory; it fails with \<open>NotADirectoryError\<close> (InvalidEnvironmentPath)
  exactly when \<open>SC2PATH\<close> is set, not empty, and not a directory, whatever the platform;
  and it fails in no other way.
\<close>

theorem C3_environment_failures:
  "((\<exists>m. ensure_sc2path plat is_dir p = Inl (EnvironmentError m)) \<longleftrightarrow>
      environ_get p ''SC2PATH'' [] = [] \<and> (plat \<noteq> ''darwin'' \<or> \<not> is_dir mac_default_sc2))
   \<and> ((\<exists>m. ensure_sc2path plat is_dir p = Inl (NotADirectoryError m)) \<longleftrightarrow>
      environ_get p ''SC2PATH'' [] \<noteq> [] \<and> \<not> is_dir (environ_get p ''SC2PATH'' []))
   \<and> ((\<exists>e. ensure_sc2path plat is_dir p = Inl e) \<longleftrightarrow>
      (\<exists>m. ensure_sc2path plat is_dir p = Inl (EnvironmentError m)) \<or>
      (\<exists>m. ensure_sc2path plat is_dir p = Inl (NotADirectoryError m)))"
  by (auto simp: ensure_sc2path_def Let_def)

text \<open>
  C3 at concrete inputs: \<open>SC2PATH\<close> unset on Linux, and \<open>SC2PATH\<close> set to a path that is no
  directory on a Mac.
\<close>

theorem C3_environment_failures_witness:
  "(\<exists>m. ensure_sc2path ''linux'' (isdir scenario_world) scenario_proc = Inl (EnvironmentError m))
   \<and> (\<exists>m. ensure_sc2path ''darwin'' (isdir scenario_world)
             (scenario_proc\<lparr> environ := [''SC2PATH'' \<mapsto> ''/tmp/sc2''] \<rparr>) = Inl (NotADirectoryError m))"
  using C3_environment_failures [of "''linux''" "isdir scenario_world" scenario_proc]
    C3_environment_failures [of "''darwin''" "isdir scenario_world"
      "scenario_proc\<lparr> environ := [''SC2PATH'' \<mapsto> ''/tmp/sc2''] \<rparr>"]
  by (simp add: environ_get_def scenario_defs)

subsection \<open>C4: model resolution\<close>

text \<open>
  Claim C4 as stated promises, for each slot on its own, a ModelNotFound error that names
  the slot and its path when the resolved path does not exist. With \<open>--model1 foo --model2
  bar\<close> and no model file on disk, the path of \<open>model2\<close> resolves to \<open>bar.pth\<close> and does not
  exist, but the error names \<open>Model1\<close> and \<open>foo.pth\<close>.
\<close>

theorem C4_counterexample:
  "slot_path (Some ''bar'') ''/opt/distar/bin'' (Some ''default'') = Some ''/opt/distar/bin/bar.pth''
   \<and> path_exists bare_world ''/opt/distar/bin/bar.pth'' = False
   \<and> resolve_models (Some ''foo'') (Some ''bar'') ''/opt/distar/bin'' (path_exists bare_world)
         (actor load_default_config) =
       Inl (FileNotFoundError ''[ERROR] Model1 is nowhere to be found at /opt/distar/bin/foo.pth'')
   \<and> resolve_models (Some ''foo'') (Some ''bar'') ''/opt/distar/bin'' (path_exists bare_world)
         (actor load_default_config) \<noteq>
       Inl (FileNotFoundError ''[ERROR] Model2 is nowhere to be found at /opt/distar/bin/bar.pth'')"
  by (simp add: slot_path_def resolve_models_def resolve_slot_def path_defs scenario_defs)

text \<open>
  Claim C4, amended. Each slot is resolved on its own to \<open>slot_path\<close>: an explicit name is
  joined to the base directory with \<open>.pth\<close> appended; else the sentinel \<open>default\<close> gives the
  fixed default model path; else the existing value is left unchanged (and a slot with
  neither name nor value is a \<open>KeyError\<close>). Resolving a resolved slot again changes
  nothing. After both slots are resolved the paths are checked in the order \<open>model1\<close>,
  \<open>model2\<close>, and the run fails with the ModelNotFound error that names the first slot whose
  path does not exist, and that path: a missing \<open>model2\<close> path is reported only when the
  \<open>model1\<close> path exists.
\<close>

theorem C4_model_resolution:
  "resolve_slot slot arg dir mp =
     (case slot_path arg dir (mp slot) of
        None \<Rightarrow> Inl (KeyError slot)
      | Some r \<Rightarrow> Inr (mp(slot \<mapsto> r), r))
   \<and> (resolve_slot slot arg dir mp = Inr (mp', m) \<longrightarrow> resolve_slot slot None dir mp' = Inr (mp', m))
   \<and> (model_paths a = Some mp0 \<and> slot_path arg1 dir (mp0 ''model1'') = Some r1 \<and>
        slot_path arg2 dir (mp0 ''model2'') = Some r2 \<longrightarrow>
        resolve_models arg1 arg2 dir ex a =
          (if \<not> ex r1 then
             Inl (FileNotFoundError (''[ERROR] Model1 is nowhere to be found at '' @ r1))
           else if \<not> ex r2 then
             Inl (FileNotFoundError (''[ERROR] Model2 is nowhere to be found at '' @ r2))
           else Inr (a\<lparr> model_paths := Some (mp0(''model1'' \<mapsto> r1, ''model2'' \<mapsto> r2)) \<rparr>, r1, r2)))"
  using resolve_slot_eq [of slot arg dir mp] resolve_slot_idem [of slot arg dir mp mp' m]
    resolve_models_eq [of a mp0 arg1 dir r1 arg2 r2 ex]
  by blast

text \<open>
  C4 at concrete inputs: the sentinel of \<open>model2\<close> becomes the default model path, and
  resolving again leaves it; a missing \<open>foo.pth\<close> is reported for \<open>Model1\<close>; with
  \<open>foo.pth\<close> present a missing \<open>baz.pth\<close> is reported for \<open>Model2\<close>.
\<close>

theorem C4_model_resolution_witness:
  "resolve_slot ''model2'' None ''/opt/distar/bin'' [''model2'' \<mapsto> ''default''] =
     Inr ([''model2'' \<mapsto> ''/opt/distar/bin/rl_model.pth''], ''/opt/distar/bin/rl_model.pth'')
   \<and> resolve_slot ''model2'' None ''/opt/distar/bin'' [''model2'' \<mapsto> ''/opt/distar/bin/rl_model.pth''] =
     Inr ([''model2'' \<mapsto> ''/opt/distar/bin/rl_model.pth''], ''/opt/distar/bin/rl_model.pth'')
   \<and> resolve_models (Some ''foo'') None ''/opt/distar/bin'' (path_exists bare_world)
         (actor load_default_config) =
       Inl (FileNotFoundError ''[ERROR] Model1 is nowhere to be found at /opt/distar/bin/foo.pth'')
   \<and> resolve_models (Some ''foo'') (Some ''baz'') ''/opt/distar/bin'' (path_exists scenario_world)
         (actor load_default_config) =
       Inl (FileNotFoundError ''[ERROR] Model2 is nowhere to be found at /opt/distar/bin/baz.pth'')"
proof -
  have 1: "resolve_slot ''model2'' None ''/opt/distar/bin'' [''model2'' \<mapsto> ''default''] =
     Inr ([''model2'' \<mapsto> ''/opt/distar/bin/rl_model.pth''], ''/opt/distar/bin/rl_model.pth'')"
    using C4_model_resolution [THEN conjunct1, of "''model2''" None "''/opt/distar/bin''"
        "[''model2'' \<mapsto> ''default'']"]
    by (simp add: slot_path_def path_defs)
  have 2: "resolve_slot ''model2'' None ''/opt/distar/bin'' [''model2'' \<mapsto> ''/opt/distar/bin/rl_model.pth''] =
     Inr ([''model2'' \<mapsto> ''/opt/distar/bin/rl_model.pth''], ''/opt/distar/bin/rl_model.pth'')"
    using 1 C4_model_resolution [THEN conjunct2, THEN conjunct1, of "''model2''" None
        "''/opt/distar/bin''" "[''model2'' \<mapsto> ''default'']"
        "[''model2'' \<mapsto> ''/opt/distar/bin/rl_model.pth'']" "''/opt/distar/bin/rl_model.pth''"]
    by blast
  have 3: "resolve_models (Some ''foo'') None ''/opt/distar/bin'' (path_exists bare_world)
         (actor load_default_config) =
       Inl (FileNotFoundError ''[ERROR] Model1 is nowhere to be found at /opt/distar/bin/foo.pth'')"
    using C4_model_resolution [THEN conjunct2, THEN conjunct2, of "actor load_default_config"
        "[''model1'' \<mapsto> ''default'', ''model2'' \<mapsto> ''default'']" "Some ''foo''" "''/opt/distar/bin''"
        "''/opt/distar/bin/foo.pth''" None "''/opt/distar/bin/rl_model.pth''" "path_exists bare_world"]
    by (simp add: slot_path_def path_defs scenario_defs)
  have 4: "resolve_models (Some ''foo'') (Some ''baz'') ''/opt/distar/bin'' (path_exists scenario_world)
         (actor load_default_config) =
       Inl (FileNotFoundError ''[ERROR] Model2 is nowhere to be found at /opt/distar/bin/baz.pth'')"
    using C4_model_resolution [THEN conjunct2, THEN conjunct2, of "actor load_default_config"
        "[''model1'' \<mapsto> ''default'', ''model2'' \<mapsto> ''default'']" "Some ''foo''" "''/opt/distar/bin''"
        "''/opt/distar/bin/foo.pth''" "Some ''baz''" "''/opt/distar/bin/baz.pth''"
        "path_exists scenario_world"]
    by (simp add: slot_path_def path_defs scenario_defs)
  from 1 2 3 4 show ?thesis by blast
qed

subsection \<open>C5: identities in agent_vs_bot\<close>

text \<open>
  Claim C5 as stated makes side 0 the base filename of the resolved \<open>model1\<close> path with
  its extension stripped. With \<open>--game_type agent_vs_bot --model1 foo.v2 --model2 bot7\<close>
  the resolved path is \<open>/opt/distar/bin/foo.v2.pth\<close>, whose base filename without its
  extension is \<open>foo.v2\<close>, but the Actor is handed the identity \<open>foo\<close>.
\<close>

theorem C5_counterexample:
  "slot_path (Some ''foo.v2'') ''/opt/distar/bin'' (Some ''default'') =
     Some ''/opt/distar/bin/foo.v2.pth''
   \<and> strip_extension (basename ''/opt/distar/bin/foo.v2.pth'') = ''foo.v2''
   \<and> map (env_player_ids \<circ> env)
         (actor_runs (main (scenario_args\<lparr> game_type := agent_vs_bot, model1 := Some ''foo.v2'',
                                           model2 := Some ''bot7'' \<rparr>)
                        scenario_world scenario_read_config scenario_proc)) =
       [Some [''foo'', ''bot7'']]"
  by (simp add: main_def stage_defs scenario_defs path_defs slot_path_def strip_extension_def
      Let_def sublist_code)

text \<open>
  Claim C5, amended. In a run of game type \<open>agent_vs_bot\<close> that reaches match-mode
  resolution, side 1 is the raw \<open>--model2\<close> string when it was given and contains \<open>bot\<close>,
  and \<open>bot10\<close> otherwise: a function of the argument alone, no path enters it. Side 0 is
  the base filename of the resolved \<open>model1\<close> path (what follows its last slash) cut at
  its first dot. That is the base filename with its extension stripped exactly when the
  base filename has at most one dot and does not start with a dot; it gives back every
  \<open>--model1\<close> name that has neither slash nor dot.
\<close>

theorem C5_agent_vs_bot_identities:
  assumes "snd (assemble a w rc p) = Inr c" and "game_type a = agent_vs_bot"
  shows "\<exists>mp r1.
     model_paths (actor (rc (config_path w))) = Some mp \<and>
     slot_path (model1 a) (dirname (script_file w)) (mp ''model1'') = Some r1 \<and>
     env_player_ids (env c) =
       Some [player_id r1,
             case model2 a of
               None \<Rightarrow> ''bot10''
             | Some m \<Rightarrow> if sublist ''bot'' m then m else ''bot10''] \<and>
     (\<forall>n. model1 a = Some n \<and> sep \<notin> set n \<and> CHR ''.'' \<notin> set n \<longrightarrow> player_id r1 = n) \<and>
     player_id r1 = takeWhile (\<lambda>ch. ch \<noteq> CHR ''.'') (basename r1) \<and>
     (\<exists>d. r1 = d @ basename r1 \<and> CHR ''/'' \<notin> set (basename r1) \<and> (d = [] \<or> last d = CHR ''/'')) \<and>
     (player_id r1 = strip_extension (basename r1) \<longleftrightarrow>
        length (filter (\<lambda>ch. ch = CHR ''.'') (basename r1)) \<le> 1 \<and> \<not> prefix ''.'' (basename r1))"
proof -
  from assemble_player_ids [OF assms(1)] assms(2) obtain mp r1 where
    mp: "model_paths (actor (rc (config_path w))) = Some mp"
    and r1: "slot_path (model1 a) (dirname (script_file w)) (mp ''model1'') = Some r1"
    and ids: "env_player_ids (env c) =
       Some [player_id r1,
             case model2 a of
               None \<Rightarrow> ''bot10''
             | Some m \<Rightarrow> if sublist ''bot'' m then m else ''bot10'']"
    by (auto simp: bot_level_eq)
  have name: "\<forall>n. model1 a = Some n \<and> sep \<notin> set n \<and> CHR ''.'' \<notin> set n \<longrightarrow> player_id r1 = n"
    using r1 player_id_of_name [of _ "dirname (script_file w)"] by (auto simp: slot_path_def)
  have cut: "player_id r1 = takeWhile (\<lambda>ch. ch \<noteq> CHR ''.'') (basename r1)"
    by (simp add: player_id_def split_dot_0_def)
  have base: "\<exists>d. r1 = d @ basename r1 \<and> CHR ''/'' \<notin> set (basename r1) \<and>
      (d = [] \<or> last d = CHR ''/'')"
    using basename_decomp [of r1] by (simp add: sep_def)
  have ext: "player_id r1 = strip_extension (basename r1) \<longleftrightarrow>
        length (filter (\<lambda>ch. ch = CHR ''.'') (basename r1)) \<le> 1 \<and> \<not> prefix ''.'' (basename r1)"
    using cut_eq_strip_iff [of "basename r1"] by (simp only: cut)
  from mp r1 ids name cut base ext show ?thesis by blast
qed

text \<open>
  C5 at a concrete input: \<open>--game_type agent_vs_bot --model1 foo --model2 bot7\<close>.
\<close>

theorem C5_agent_vs_bot_identities_witness:
  "\<exists>c. snd (assemble (scenario_args\<lparr> game_type := agent_vs_bot, model2 := Some ''bot7'' \<rparr>)
              scenario_world scenario_read_config scenario_proc) = Inr c \<and>
       env_player_ids (env c) = Some [''foo'', ''bot7'']"
proof -
  let ?a = "scenario_args\<lparr> game_type := agent_vs_bot, model2 := Some ''bot7'' \<rparr>"
  have gt: "game_type ?a = agent_vs_bot"
    by simp
  obtain c where c: "snd (assemble ?a scenario_world scenario_read_config scenario_proc) = Inr c"
    using scenario_assemble_bot by blast
  from C5_agent_vs_bot_identities [OF c gt] obtain mp r1 where
    "model_paths (actor (scenario_read_config (config_path scenario_world))) = Some mp"
    "slot_path (model1 ?a) (dirname (script_file scenario_world)) (mp ''model1'') = Some r1"
    "env_player_ids (env c) =
       Some [player_id r1,
             case model2 ?a of
               None \<Rightarrow> ''bot10''
             | Some m \<Rightarrow> if sublist ''bot'' m then m else ''bot10'']"
    by blast
  then have "env_player_ids (env c) = Some [''foo'', ''bot7'']"
    by (auto simp: slot_path_def scenario_defs path_defs sublist_code)
  with c show ?thesis by blast
qed

subsection \<open>C6: two player identities\<close>

text \<open>
  Claim C6 as stated makes the first entry in \<open>human_vs_agent\<close> mode the base filename of
  the resolved \<open>model1\<close> path with its extension stripped. With \<open>--game_type human_vs_agent
  --model1 foo.v2\<close> the resolved path is \<open>/opt/distar/bin/foo.v2.pth\<close>, whose base filename
  without its extension is \<open>foo.v2\<close>, but the identities are \<open>foo\<close> and \<open>human\<close>.
\<close>

theorem C6_counterexample:
  "slot_path (Some ''foo.v2'') ''/opt/distar/bin'' (Some ''default'') =
     Some ''/opt/distar/bin/foo.v2.pth''
   \<and> strip_extension (basename ''/opt/distar/bin/foo.v2.pth'') = ''foo.v2''
   \<and> map (env_player_ids \<circ> env)
         (actor_runs (main (scenario_args\<lparr> game_type := human_vs_agent, model1 := Some ''foo.v2'' \<rparr>)
                        scenario_world scenario_read_config scenario_proc)) =
       [Some [''foo'', ''human'']]"
  by (simp add: main_def stage_defs scenario_defs path_defs slot_path_def strip_extension_def Let_def)

text \<open>
  Claim C6, amended. In every run that reaches match-mode resolution, whatever the game
  type, \<open>env.player_ids\<close> is a list of exactly two entries. In \<open>human_vs_agent\<close> the first
  is the base filename of the resolved \<open>model1\<close> path (what follows its last slash) cut at
  its first dot, and the second is \<open>human\<close>. The first entry is the base filename with
  its extension stripped exactly when the base filename has at most one dot and does not
  start with a dot.
\<close>

theorem C6_two_player_identities:
  assumes "snd (assemble a w rc p) = Inr c"
  shows "(\<exists>s0 s1. env_player_ids (env c) = Some [s0, s1]) \<and>
     (game_type a = human_vs_agent \<longrightarrow>
        (\<exists>mp r1. model_paths (actor (rc (config_path w))) = Some mp \<and>
           slot_path (model1 a) (dirname (script_file w)) (mp ''model1'') = Some r1 \<and>
           env_player_ids (env c) =
             Some [takeWhile (\<lambda>ch. ch \<noteq> CHR ''.'') (basename r1), ''human''] \<and>
           player_id r1 = takeWhile (\<lambda>ch. ch \<noteq> CHR ''.'') (basename r1) \<and>
           (\<exists>d. r1 = d @ basename r1 \<and> CHR ''/'' \<notin> set (basename r1) \<and>
                (d = [] \<or> last d = CHR ''/'')) \<and>
           (takeWhile (\<lambda>ch. ch \<noteq> CHR ''.'') (basename r1) = strip_extension (basename r1) \<longleftrightarrow>
              length (filter (\<lambda>ch. ch = CHR ''.'') (basename r1)) \<le> 1 \<and>
              \<not> prefix ''.'' (basename r1))))"
proof -
  from assemble_player_ids [OF assms] obtain mp r1 r2 where
    mp: "model_paths (actor (rc (config_path w))) = Some mp"
    and r1: "slot_path (model1 a) (dirname (script_file w)) (mp ''model1'') = Some r1"
    and ids: "env_player_ids (env c) =
       Some [player_id r1,
             case game_type a of
               agent_vs_agent \<Rightarrow> player_id r2
             | agent_vs_bot \<Rightarrow> bot_level (model2 a)
             | human_vs_agent \<Rightarrow> ''human'']"
    by blast
  from ids have two: "\<exists>s0 s1. env_player_ids (env c) = Some [s0, s1]" by blast
  have cut: "player_id r1 = takeWhile (\<lambda>ch. ch \<noteq> CHR ''.'') (basename r1)"
    by (simp add: player_id_def split_dot_0_def)
  have base: "\<exists>d. r1 = d @ basename r1 \<and> CHR ''/'' \<notin> set (basename r1) \<and>
      (d = [] \<or> last d = CHR ''/'')"
    using basename_decomp [of r1] by (simp add: sep_def)
  note ext = cut_eq_strip_iff [of "basename r1"]
  have "env_player_ids (env c) =
      Some [takeWhile (\<lambda>ch. ch \<noteq> CHR ''.'') (basename r1), ''human'']"
    if "game_type a = human_vs_agent"
    using ids that cut by simp
  with mp r1 two cut base ext show ?thesis by blast
qed

text \<open>
  C6 at concrete inputs: \<open>--game_type human_vs_agent\<close> with both models defaulted, and
  with \<open>--model1 foo --model2 bar\<close>.
\<close>

theorem C6_two_player_identities_witness:
  "(\<exists>c. snd (assemble (scenario_args\<lparr> game_type := human_vs_agent, model1 := None, model2 := None \<rparr>)
              scenario_world scenario_read_config scenario_proc) = Inr c \<and>
        env_player_ids (env c) = Some [''rl_model'', ''human''])
   \<and> (\<exists>c. snd (assemble (scenario_args\<lparr> game_type := human_vs_agent \<rparr>)
              scenario_world scenario_read_config scenario_proc) = Inr c \<and>
        env_player_ids (env c) = Some [''foo'', ''human''])"
proof -
  let ?a1 = "scenario_args\<lparr> game_type := human_vs_agent, model1 := None, model2 := None \<rparr>"
  let ?a2 = "scenario_args\<lparr> game_type := human_vs_agent \<rparr>"
  have gt: "game_type ?a1 = human_vs_agent" "game_type ?a2 = human_vs_agent"
    by simp_all
  obtain c1 where c1: "snd (assemble ?a1 scenario_world scenario_read_config scenario_proc) = Inr c1"
    using scenario_assemble_human by blast
  from C6_two_player_identities [OF c1] gt(1) obtain mp r1 where
    "model_paths (actor (scenario_read_config (config_path scenario_world))) = Some mp"
    "slot_path (model1 ?a1) (dirname (script_file scenario_world)) (mp ''model1'') = Some r1"
    "env_player_ids (env c1) = Some [takeWhile (\<lambda>ch. ch \<noteq> CHR ''.'') (basename r1), ''human'']"
    by blast
  then have "env_player_ids (env c1) = Some [''rl_model'', ''human'']"
    by (auto simp: slot_path_def scenario_defs path_defs)
  with c1 have 1: "\<exists>c. snd (assemble ?a1 scenario_world scenario_read_config scenario_proc) = Inr c \<and>
        env_player_ids (env c) = Some [''rl_model'', ''human'']"
    by blast
  obtain c2 where c2: "snd (assemble ?a2 scenario_world scenario_read_config scenario_proc) = Inr c2"
    using scenario_assemble_human_foo by blast
  from C6_two_player_identities [OF c2] gt(2) obtain mp' r1' where
    "model_paths (actor (scenario_read_config (config_path scenario_world))) = Some mp'"
    "slot_path (model1 ?a2) (dirname (script_file scenario_world)) (mp' ''model1'') = Some r1'"
    "env_player_ids (env c2) = Some [takeWhile (\<lambda>ch. ch \<noteq> CHR ''.'') (basename r1'), ''human'']"
    by blast
  then have "env_player_ids (env c2) = Some [''foo'', ''human'']"
    by (auto simp: slot_path_def scenario_defs path_defs)
  with c2 have 2: "\<exists>c. snd (assemble ?a2 scenario_world scenario_read_config scenario_proc) = Inr c \<and>
        env_player_ids (env c) = Some [''foo'', ''human'']"
    by blast
  from 1 2 show ?thesis by blast
qed

subsection \<open>C7: model2 is checked although unused\<close>

text \<open>
  Claim C7 as stated promises the ModelNotFound error of \<open>model2\<close> for every input whose
  resolved \<open>model2\<close> path does not exist. In \<open>human_vs_agent\<close> mode with \<open>--model2 bar\<close> and
  no model file on disk, \<open>bar.pth\<close> does not exist, but the run fails with the error of
  \<open>Model1\<close>, whose check comes first.
\<close>

theorem C7_counterexample:
  "game_type (scenario_args\<lparr> game_type := human_vs_agent, model1 := None \<rparr>) = human_vs_agent
   \<and> slot_path (model2 (scenario_args\<lparr> game_type := human_vs_agent, model1 := None \<rparr>))
        (dirname (script_file bare_world)) (Some ''default'') = Some ''/opt/distar/bin/bar.pth''
   \<and> path_exists bare_world ''/opt/distar/bin/bar.pth'' = False
   \<and> raised (main (scenario_args\<lparr> game_type := human_vs_agent, model1 := None \<rparr>) bare_world
                scenario_read_config scenario_proc) =
       Some (FileNotFoundError ''[ERROR] Model1 is nowhere to be found at /opt/distar/bin/rl_model.pth'')
   \<and> raised (main (scenario_args\<lparr> game_type := human_vs_agent, model1 := None \<rparr>) bare_world
                scenario_read_config scenario_proc) \<noteq>
       Some (FileNotFoundError ''[ERROR] Model2 is nowhere to be found at /opt/distar/bin/bar.pth'')"
  using scenario_main_missing_models
  by (simp add: slot_path_def scenario_defs path_defs)

text \<open>
  Claim C7, amended. In every game type, \<open>human_vs_agent\<close> included, a run whose resolved
  \<open>model2\<close> path does not exist fails and never runs the Actor; the failure is the
  ModelNotFound error of the \<open>model2\<close> slot whenever the steps before its check succeed,
  that is when the game installation is located and the resolved \<open>model1\<close> path exists.
\<close>

theorem C7_model2_checked_in_every_mode:
  assumes "model_paths (actor (rc (config_path w))) = Some mp"
    and "slot_path (model2 a) (dirname (script_file w)) (mp ''model2'') = Some r2"
    and "\<not> path_exists w r2"
  shows "raised (main a w rc p) \<noteq> None \<and> actor_runs (main a w rc p) = [] \<and>
     ((\<exists>p1. ensure_sc2path (platform w) (isdir w) p = Inr p1) \<and>
      slot_path (model1 a) (dirname (script_file w)) (mp ''model1'') = Some r1 \<and>
      path_exists w r1 \<longrightarrow>
      raised (main a w rc p) =
        Some (FileNotFoundError (''[ERROR] Model2 is nowhere to be found at '' @ r2)))"
proof -
  have no: "snd (assemble a w rc p) \<noteq> Inr c" for c
  proof
    assume "snd (assemble a w rc p) = Inr c"
    from assemble_Inr_facts [OF this] assms(1,2) have "path_exists w r2" by auto
    with assms(3) show False by simp
  qed
  have fails: "raised (main a w rc p) \<noteq> None \<and> actor_runs (main a w rc p) = []"
    using no by (cases "snd (assemble a w rc p)") (auto simp: main_raised main_actor_runs)
  have "raised (main a w rc p) =
        Some (FileNotFoundError (''[ERROR] Model2 is nowhere to be found at '' @ r2))"
    if e: "ensure_sc2path (platform w) (isdir w) p = Inr p1"
      and s1: "slot_path (model1 a) (dirname (script_file w)) (mp ''model1'') = Some r1"
      and ex1: "path_exists w r1" for p1
  proof -
    let ?a2 = "snd (decide_device (cpu a) (mps_is_available w) (cuda_is_available w) p1
                 (actor (base_overrides (rc (config_path w)))))"
    from assms(1) have "model_paths ?a2 = Some mp"
      by (simp add: decide_device_keeps base_overrides_keeps)
    from resolve_models_eq [OF this s1 assms(2)] ex1 assms(3)
    have r: "resolve_models (model1 a) (model2 a) (dirname (script_file w)) (path_exists w) ?a2 =
        Inl (FileNotFoundError (''[ERROR] Model2 is nowhere to be found at '' @ r2))"
      by simp
    have "snd (assemble a w rc p) =
        Inl (FileNotFoundError (''[ERROR] Model2 is nowhere to be found at '' @ r2))"
      using e r by (rule assemble_resolve_Inl)
    then show ?thesis
      by (simp add: main_raised)
  qed
  with fails show ?thesis by blast
qed

text \<open>
  C7 at a concrete input: \<open>--game_type human_vs_agent --model1 foo --model2 baz\<close>, where
  \<open>foo.pth\<close> exists and \<open>baz.pth\<close> does not.
\<close>

theorem C7_model2_checked_witness:
  "raised (main (scenario_args\<lparr> game_type := human_vs_agent, model2 := Some ''baz'' \<rparr>)
             scenario_world scenario_read_config scenario_proc) =
     Some (FileNotFoundError ''[ERROR] Model2 is nowhere to be found at /opt/distar/bin/baz.pth'')
   \<and> actor_runs (main (scenario_args\<lparr> game_type := human_vs_agent, model2 := Some ''baz'' \<rparr>)
             scenario_world scenario_read_config scenario_proc) = []"
proof -
  let ?a = "scenario_args\<lparr> game_type := human_vs_agent, model2 := Some ''baz'' \<rparr>"
  let ?mp = "[''model1'' \<mapsto> ''default'', ''model2'' \<mapsto> ''default'']"
  have mp: "model_paths (actor (scenario_read_config (config_path scenario_world))) = Some ?mp"
    by (simp add: scenario_defs)
  have r2: "slot_path (model2 ?a) (dirname (script_file scenario_world)) (?mp ''model2'') =
      Some ''/opt/distar/bin/baz.pth''"
    by (simp add: slot_path_def scenario_defs path_defs)
  have nex: "\<not> path_exists scenario_world ''/opt/distar/bin/baz.pth''"
    by (simp add: scenario_defs)
  have e: "\<exists>p1. ensure_sc2path (platform scenario_world) (isdir scenario_world) scenario_proc = Inr p1"
    by (simp add: ensure_sc2path_ok_iff environ_get_def mac_default_sc2_def scenario_defs)
  have r1: "slot_path (model1 ?a) (dirname (script_file scenario_world)) (?mp ''model1'') =
      Some ''/opt/distar/bin/foo.pth''"
    by (simp add: slot_path_def scenario_defs path_defs)
  have ex1: "path_exists scenario_world ''/opt/distar/bin/foo.pth''"
    by (simp add: scenario_defs)
  from C7_model2_checked_in_every_mode [where rc = scenario_read_config and w = scenario_world
      and a = ?a and p = scenario_proc and ?r1.0 = "''/opt/distar/bin/foo.pth''", OF mp r2 nex]
    e r1 ex1
  show ?thesis by simp
qed

subsection \<open>C8: the race override\<close>

text \<open>
  Claim C8. The race override writes index 1 of \<open>env.races\<close> and nothing else: the new
  configuration is the old one with that entry replaced, so index 0, every other index,
  the length, the other keys of \<open>env\<close> and the sections \<open>actor\<close> and \<open>common\<close> are
  unchanged. In every run that reaches the Actor, for every race and game type, the
  races handed over are those of the loaded configuration with index 1 replaced.
\<close>

theorem C8_race_override_frame:
  "(override_race r c = Inr c' \<longrightarrow>
      (\<exists>rs. races (env c) = Some rs \<and> 2 \<le> length rs \<and>
            c' = c\<lparr> env := (env c)\<lparr> races := Some (rs[1 := r]) \<rparr> \<rparr> \<and>
            (rs[1 := r]) ! 1 = r \<and> (rs[1 := r]) ! 0 = rs ! 0 \<and>
            length (rs[1 := r]) = length rs \<and>
            (\<forall>i. i \<noteq> 1 \<longrightarrow> (rs[1 := r]) ! i = rs ! i)) \<and>
      actor c' = actor c \<and> common c' = common c \<and>
      realtime (env c') = realtime (env c) \<and>
      env_player_ids (env c') = env_player_ids (env c) \<and>
      env_config.more (env c') = env_config.more (env c))
   \<and> (snd (assemble a w rc p) = Inr d \<longrightarrow>
        (\<exists>rs. races (env (rc (config_path w))) = Some rs \<and> 2 \<le> length rs \<and>
              races (env d) = Some (rs[1 := race_str (race a)]) \<and>
              (rs[1 := race_str (race a)]) ! 0 = rs ! 0))"
proof -
  have step: "(\<exists>rs. races (env c) = Some rs \<and> 2 \<le> length rs \<and>
            c' = c\<lparr> env := (env c)\<lparr> races := Some (rs[1 := r]) \<rparr> \<rparr> \<and>
            (rs[1 := r]) ! 1 = r \<and> (rs[1 := r]) ! 0 = rs ! 0 \<and>
            length (rs[1 := r]) = length rs \<and>
            (\<forall>i. i \<noteq> 1 \<longrightarrow> (rs[1 := r]) ! i = rs ! i)) \<and>
      actor c' = actor c \<and> common c' = common c \<and>
      realtime (env c') = realtime (env c) \<and>
      env_player_ids (env c') = env_player_ids (env c) \<and>
      env_config.more (env c') = env_config.more (env c)"
    if "override_race r c = Inr c'"
  proof -
    from override_race_Inr_D [OF that] obtain rs where
      rs: "races (env c) = Some rs" "2 \<le> length rs"
      and c': "c' = c\<lparr> env := (env c)\<lparr> races := Some (rs[1 := r]) \<rparr> \<rparr>"
      by blast
    from rs(2) have "(rs[1 := r]) ! 1 = r" by simp
    moreover have "(rs[1 := r]) ! 0 = rs ! 0" by simp
    moreover have "\<forall>i. i \<noteq> 1 \<longrightarrow> (rs[1 := r]) ! i = rs ! i" by simp
    moreover have "length (rs[1 := r]) = length rs" by simp
    moreover from c' have "actor c' = actor c" "common c' = common c"
      "realtime (env c') = realtime (env c)" "env_player_ids (env c') = env_player_ids (env c)"
      "env_config.more (env c') = env_config.more (env c)"
      by simp_all
    ultimately show ?thesis using rs c' by blast
  qed
  have run: "\<exists>rs. races (env (rc (config_path w))) = Some rs \<and> 2 \<le> length rs \<and>
              races (env d) = Some (rs[1 := race_str (race a)]) \<and>
              (rs[1 := race_str (race a)]) ! 0 = rs ! 0"
    if "snd (assemble a w rc p) = Inr d"
  proof -
    from assemble_Inr_facts [OF that] obtain rs where
      "races (env (rc (config_path w))) = Some rs" "2 \<le> length rs"
      "races (env d) = Some (rs[1 := race_str (race a)])"
      by (auto simp: game_type_logic_keeps)
    moreover have "(rs[1 := race_str (race a)]) ! 0 = rs ! 0" by simp
    ultimately show ?thesis by blast
  qed
  from step run show ?thesis by blast
qed

text \<open>
  C8 at concrete inputs: overriding the scenario's result with \<open>terran\<close>, and the scenario
  itself with \<open>--race protoss\<close>.
\<close>

theorem C8_race_override_frame_witness:
  "(\<exists>c'. override_race ''terran'' scenario_final = Inr c' \<and>
         races (env c') = Some [''zerg'', ''terran''] \<and> actor c' = actor scenario_final)
   \<and> (\<exists>d. snd (assemble scenario_args scenario_world scenario_read_config scenario_proc) = Inr d \<and>
         races (env d) = Some [''zerg'', ''protoss''])"
proof -
  let ?c' = "scenario_final\<lparr> env := (env scenario_final)\<lparr> races := Some [''zerg'', ''terran''] \<rparr> \<rparr>"
  have o: "override_race ''terran'' scenario_final = Inr ?c'"
    by (simp add: override_race_def scenario_final_def)
  from C8_race_override_frame [THEN conjunct1, of "''terran''" scenario_final ?c'] o
  have "actor ?c' = actor scenario_final" by blast
  moreover have "races (env ?c') = Some [''zerg'', ''terran'']" by simp
  ultimately have 1: "\<exists>c'. override_race ''terran'' scenario_final = Inr c' \<and>
         races (env c') = Some [''zerg'', ''terran''] \<and> actor c' = actor scenario_final"
    using o by blast
  have rs: "races (env (scenario_read_config (config_path scenario_world))) = Some [''zerg'', ''zerg'']"
    by (simp add: scenario_defs)
  from C8_race_override_frame [THEN conjunct2, of scenario_args scenario_world scenario_read_config
      scenario_proc scenario_final] scenario_assemble rs
  have "races (env scenario_final) = Some ([''zerg'', ''zerg''][1 := race_str (race scenario_args)])"
    by auto
  then have "races (env scenario_final) = Some [''zerg'', ''protoss'']"
    by (simp add: scenario_args_def)
  with scenario_assemble have 2:
    "\<exists>d. snd (assemble scenario_args scenario_world scenario_read_config scenario_proc) = Inr d \<and>
         races (env d) = Some [''zerg'', ''protoss'']"
    by blast
  from 1 2 show ?thesis by blast
qed

subsection \<open>C9: one run of the Actor, or none\<close>

text \<open>
  Claim C9. For every input, either lines 85-195 finish with a configuration, nothing is
  raised and the Actor is run exactly once, with that configuration; or they raise, and
  the Actor is never run. The Actor is run at most once. Nothing is raised exactly when
  the game installation is located, both slots resolve to existing paths and \<open>env.races\<close>
  has at least two entries.
\<close>

theorem C9_actor_run_once_or_never:
  "((\<exists>c. snd (assemble a w rc p) = Inr c \<and> raised (main a w rc p) = None \<and>
         actor_runs (main a w rc p) = [c]) \<or>
    (\<exists>e. snd (assemble a w rc p) = Inl e \<and> raised (main a w rc p) = Some e \<and>
         actor_runs (main a w rc p) = []))
   \<and> length (actor_runs (main a w rc p)) \<le> 1
   \<and> (raised (main a w rc p) = None \<longleftrightarrow>
        (\<exists>p1. ensure_sc2path (platform w) (isdir w) p = Inr p1) \<and>
        (\<exists>mp r1 r2. model_paths (actor (rc (config_path w))) = Some mp \<and>
           slot_path (model1 a) (dirname (script_file w)) (mp ''model1'') = Some r1 \<and>
           slot_path (model2 a) (dirname (script_file w)) (mp ''model2'') = Some r2 \<and>
           path_exists w r1 \<and> path_exists w r2) \<and>
        (\<exists>rs. races (env (rc (config_path w))) = Some rs \<and> 2 \<le> length rs))"
proof -
  have 1: "(\<exists>c. snd (assemble a w rc p) = Inr c \<and> raised (main a w rc p) = None \<and>
         actor_runs (main a w rc p) = [c]) \<or>
    (\<exists>e. snd (assemble a w rc p) = Inl e \<and> raised (main a w rc p) = Some e \<and>
         actor_runs (main a w rc p) = [])"
    by (cases "snd (assemble a w rc p)") (simp_all add: main_raised main_actor_runs)
  have 2: "length (actor_runs (main a w rc p)) \<le> 1"
    by (cases "snd (assemble a w rc p)") (simp_all add: main_actor_runs)
  have "raised (main a w rc p) = None \<longleftrightarrow> (\<exists>c. snd (assemble a w rc p) = Inr c)"
    by (cases "snd (assemble a w rc p)") (simp_all add: main_raised)
  then have 3: "raised (main a w rc p) = None \<longleftrightarrow>
        (\<exists>p1. ensure_sc2path (platform w) (isdir w) p = Inr p1) \<and>
        (\<exists>mp r1 r2. model_paths (actor (rc (config_path w))) = Some mp \<and>
           slot_path (model1 a) (dirname (script_file w)) (mp ''model1'') = Some r1 \<and>
           slot_path (model2 a) (dirname (script_file w)) (mp ''model2'') = Some r2 \<and>
           path_exists w r1 \<and> path_exists w r2) \<and>
        (\<exists>rs. races (env (rc (config_path w))) = Some rs \<and> 2 \<le> length rs)"
    by (simp only: assemble_ok_iff)
  from 1 2 3 show ?thesis by blast
qed

text \<open>
  C9 at concrete inputs: the scenario runs the Actor once, with \<open>scenario_final\<close>; the
  same command line without model files raises and runs no Actor.
\<close>

theorem C9_actor_run_once_or_never_witness:
  "raised (main scenario_args scenario_world scenario_read_config scenario_proc) = None
   \<and> actor_runs (main scenario_args scenario_world scenario_read_config scenario_proc) = [scenario_final]
   \<and> raised (main scenario_args bare_world scenario_read_config scenario_proc) =
       Some (FileNotFoundError ''[ERROR] Model1 is nowhere to be found at /opt/distar/bin/foo.pth'')
   \<and> actor_runs (main scenario_args bare_world scenario_read_config scenario_proc) = []"
proof -
  from C9_actor_run_once_or_never [THEN conjunct1, of scenario_args scenario_world
      scenario_read_config scenario_proc] scenario_assemble
  have 1: "raised (main scenario_args scenario_world scenario_read_config scenario_proc) = None
    \<and> actor_runs (main scenario_args scenario_world scenario_read_config scenario_proc) = [scenario_final]"
    by auto
  from C9_actor_run_once_or_never [THEN conjunct1, of scenario_args bare_world
      scenario_read_config scenario_proc] scenario_assemble_bare
  have 2: "raised (main scenario_args bare_world scenario_read_config scenario_proc) =
       Some (FileNotFoundError ''[ERROR] Model1 is nowhere to be found at /opt/distar/bin/foo.pth'')
    \<and> actor_runs (main scenario_args bare_world scenario_read_config scenario_proc) = []"
    by auto
  from 1 2 show ?thesis by blast
qed

subsection \<open>C10: the name default on the command line\<close>

text \<open>
  Claim C10. For either slot, the command-line name \<open>default\<close> resolves to \<open>default.pth\<close>
  in the script's directory, which is not the default model path \<open>rl_model.pth\<close>: a name
  from the command line is written with \<open>.pth\<close> appended before the comparison with the
  sentinel, so the sentinel only ever matches a value of the loaded configuration.
\<close>

theorem C10_cli_default_is_a_name:
  "resolve_slot slot (Some ''default'') dir mp =
     Inr (mp(slot \<mapsto> path_join dir ''default.pth''), path_join dir ''default.pth'')
   \<and> path_join dir ''default.pth'' \<noteq> default_model_path dir
   \<and> path_join dir ''default.pth'' =
       (if dir = [] \<or> last dir = sep then dir @ ''default.pth'' else dir @ ''/default.pth'')
   \<and> resolve_slot slot (Some n) dir mp =
       Inr (mp(slot \<mapsto> path_join dir (n @ ''.pth'')), path_join dir (n @ ''.pth''))
   \<and> resolve_slot slot None dir (mp(slot \<mapsto> ''default'')) =
       Inr (mp(slot \<mapsto> default_model_path dir), default_model_path dir)
   \<and> (resolve_models arg1 arg2 dir ex a = Inr (a', m1, m2) \<longrightarrow>
        (arg1 = Some ''default'' \<longrightarrow> m1 = path_join dir ''default.pth'') \<and>
        (arg2 = Some ''default'' \<longrightarrow> m2 = path_join dir ''default.pth''))"
proof -
  have 1: "resolve_slot slot (Some n) dir mp =
       Inr (mp(slot \<mapsto> path_join dir (n @ ''.pth'')), path_join dir (n @ ''.pth''))" for n
    by (simp add: resolve_slot_eq slot_path_def)
  have 2: "path_join dir ''default.pth'' \<noteq> default_model_path dir"
    by (simp add: default_model_path_def path_join_def sep_def)
  have 3: "path_join dir ''default.pth'' =
       (if dir = [] \<or> last dir = sep then dir @ ''default.pth'' else dir @ ''/default.pth'')"
    by (simp add: path_join_def sep_def)
  have 4: "resolve_slot slot None dir (mp(slot \<mapsto> ''default'')) =
       Inr (mp(slot \<mapsto> default_model_path dir), default_model_path dir)"
    by (simp add: resolve_slot_eq slot_path_def)
  have 5: "(arg1 = Some ''default'' \<longrightarrow> m1 = path_join dir ''default.pth'') \<and>
        (arg2 = Some ''default'' \<longrightarrow> m2 = path_join dir ''default.pth'')"
    if "resolve_models arg1 arg2 dir ex a = Inr (a', m1, m2)"
    using resolve_models_Inr_D [OF that] by (auto simp: slot_path_def)
  have 0: "resolve_slot slot (Some ''default'') dir mp =
     Inr (mp(slot \<mapsto> path_join dir ''default.pth''), path_join dir ''default.pth'')"
    using 1 [of "''default''"] by simp
  from 0 1 [of n] 2 3 4 5 show ?thesis by blast
qed

text \<open>
  C10 at concrete inputs: \<open>--model1 default\<close>, and \<open>--model1 foo --model2 default\<close>.
\<close>

theorem C10_cli_default_is_a_name_witness:
  "map_sum id snd (resolve_slot ''model1'' (Some ''default'') ''/opt/distar/bin''
      [''model1'' \<mapsto> ''default'', ''model2'' \<mapsto> ''default'']) = Inr ''/opt/distar/bin/default.pth''
   \<and> default_model_path ''/opt/distar/bin'' = ''/opt/distar/bin/rl_model.pth''
   \<and> (\<exists>a' m1 m2. resolve_models (Some ''foo'') (Some ''default'') ''/opt/distar/bin''
          (path_exists scenario_world) (actor load_default_config) = Inr (a', m1, m2) \<and>
        m2 = ''/opt/distar/bin/default.pth'')"
proof -
  from C10_cli_default_is_a_name [THEN conjunct1, of "''model1''" "''/opt/distar/bin''"
      "[''model1'' \<mapsto> ''default'', ''model2'' \<mapsto> ''default'']"]
  have 1: "map_sum id snd (resolve_slot ''model1'' (Some ''default'') ''/opt/distar/bin''
      [''model1'' \<mapsto> ''default'', ''model2'' \<mapsto> ''default'']) = Inr ''/opt/distar/bin/default.pth''"
    by (simp add: path_defs)
  have 2: "default_model_path ''/opt/distar/bin'' = ''/opt/distar/bin/rl_model.pth''"
    by (simp add: path_defs)
  have "\<exists>x. resolve_models (Some ''foo'') (Some ''default'') ''/opt/distar/bin''
          (path_exists scenario_world) (actor load_default_config) = Inr x"
    by (simp add: resolve_models_def resolve_slot_def path_defs scenario_defs)
  then obtain a' m1 m2 where r: "resolve_models (Some ''foo'') (Some ''default'') ''/opt/distar/bin''
          (path_exists scenario_world) (actor load_default_config) = Inr (a', m1, m2)"
    by (metis prod_cases3)
  from C10_cli_default_is_a_name [THEN conjunct2, THEN conjunct2, THEN conjunct2, THEN conjunct2,
      THEN conjunct2, of "Some ''foo''" "Some ''default''" "''/opt/distar/bin''"
      "path_exists scenario_world" "actor load_default_config" a' m1 m2] r
  have "m2 = path_join ''/opt/distar/bin'' ''default.pth''" by blast
  then have "m2 = ''/opt/distar/bin/default.pth''" by (simp add: path_defs)
  with r have 3: "\<exists>a' m1 m2. resolve_models (Some ''foo'') (Some ''default'') ''/opt/distar/bin''
          (path_exists scenario_world) (actor load_default_config) = Inr (a', m1, m2) \<and>
        m2 = ''/opt/distar/bin/default.pth''"
    by blast
  from 1 2 3 show ?thesis by blast
qed

end
